theory Spec2Isabelle
  imports Complex_Main "HOL-Library.Log_Nat"
begin

section \<open>Data model\<close>

text \<open>
  The program is a chat bot that keeps debtors and their debts in an SQLite database and
  drives a per-chat dialog. The embedding follows \<^verbatim>\<open>src/main.go\<close>.

  Chat ids (\<^verbatim>\<open>int64\<close>) and row ids (\<^verbatim>\<open>int\<close>) are integers; the program
  never computes with them. A \<^verbatim>\<open>time.Time\<close> produced by the date layouts used here
  carries a day, a month and a year.

  Amounts are \<^verbatim>\<open>float64\<close>. A value of that type is a finite number, one of the
  two infinities, or NaN. \<open>Fin q\<close> is the finite value \<open>q\<close>; the two zeros of the
  format, which compare equal, are the one value \<open>Fin 0\<close>. Not every rational is a
  \<^verbatim>\<open>float64\<close>: finite values come into the program from \<^verbatim>\<open>strconv.ParseFloat\<close>
  and from the rounding of a difference, which are both parameters below, so what is
  proved for all of them holds for the values the machine has.
\<close>

datatype float64 = Fin rat | PInf | NInf | NaN

type_synonym amount = float64

text \<open>
  The comparisons of Go on \<^verbatim>\<open>float64\<close>: \<open>fle x y\<close> is \<^verbatim>\<open>x <= y\<close>, \<open>flt x y\<close> is
  \<^verbatim>\<open>x < y\<close> (and \<^verbatim>\<open>y > x\<close>), \<open>feq x y\<close> is \<^verbatim>\<open>x == y\<close>. Every comparison
  with NaN is false.
\<close>

fun fle :: "float64 \<Rightarrow> float64 \<Rightarrow> bool" where
  "fle NaN y = False"
| "fle x NaN = False"
| "fle NInf y = True"
| "fle x PInf = True"
| "fle PInf y = False"
| "fle x NInf = False"
| "fle (Fin a) (Fin b) = (a \<le> b)"

fun flt :: "float64 \<Rightarrow> float64 \<Rightarrow> bool" where
  "flt NaN y = False"
| "flt x NaN = False"
| "flt PInf y = False"
| "flt x NInf = False"
| "flt NInf y = True"
| "flt x PInf = True"
| "flt (Fin a) (Fin b) = (a < b)"

fun feq :: "float64 \<Rightarrow> float64 \<Rightarrow> bool" where
  "feq NaN y = False"
| "feq x NaN = False"
| "feq x y = (x = y)"

type_synonym Time = "int \<times> int \<times> int"

record Debt =
  debt_ID :: int
  debt_DebtorID :: int
  debt_Amount :: amount
  debt_Reason :: string

text \<open>\<^verbatim>\<open>sql.NullTime\<close> and \<^verbatim>\<open>sql.NullFloat64\<close> are options: \<open>None\<close> is
  \<^verbatim>\<open>Valid == false\<close>.\<close>

record Debtor =
  debtor_ID :: int
  debtor_Name :: string
  debtor_ChatID :: int
  debtor_PaymentDate :: "Time option"
  debtor_PaymentAmount :: "amount option"

text \<open>The zero values of the two structs, which a Go map lookup yields for a missing key.\<close>

definition zeroDebt :: Debt where
  "zeroDebt = \<lparr>debt_ID = 0, debt_DebtorID = 0, debt_Amount = Fin 0, debt_Reason = []\<rparr>"

definition zeroDebtor :: Debtor where
  "zeroDebtor = \<lparr>debtor_ID = 0, debtor_Name = [], debtor_ChatID = 0,
     debtor_PaymentDate = None, debtor_PaymentAmount = None\<rparr>"

text \<open>The conversation states, in the order of the \<^verbatim>\<open>iota\<close> block; \<open>StateIdle\<close> is
  the zero value.\<close>

datatype State =
    StateIdle
  | StateAddingDebtorName
  | StateAddingDebtReason
  | StateAddingDebtAmount
  | StateEditingChooseDebt
  | StateEditingChooseWhatToEdit
  | StateEditingAmount
  | StateEditingReason
  | StateConfirmingCloseDebt
  | StateSubtractingFromDebt
  | StateConfirmingDeleteDebtor
  | StateSettingPaymentDate
  | StateSettingPaymentAmount
  | StateEditingPaymentDate
  | StateEditingPaymentAmount

text \<open>
  Errors as values. \<open>ErrNoRows\<close> is \<^verbatim>\<open>sql.ErrNoRows\<close>; \<open>ErrUnique\<close>,
  \<open>ErrNotNull\<close> and \<open>ErrForeignKey\<close> are the SQLite failures "UNIQUE constraint
  failed", "NOT NULL constraint failed" and "FOREIGN KEY constraint failed";
  \<open>ErrAlreadyExists\<close> is the error
  \<^verbatim>\<open>fmt.Errorf("debtor already exists")\<close> made by \<^verbatim>\<open>addDebtor\<close> and
  \<open>ErrNoDebtors\<close> the error "no debtors found for chat" made by \<^verbatim>\<open>generateCSV\<close>;
  \<open>ErrSyntax\<close> and \<open>ErrRange\<close> are the two errors of package \<^verbatim>\<open>strconv\<close> and
  \<open>ErrParse\<close> is the error of \<^verbatim>\<open>time.Parse\<close>. \<open>ErrOther\<close> stands for every
  other failure of the storage engine (input and output); no operation of the model
  produces it, but the handlers keep their branch for it.
\<close>

datatype error =
    ErrNoRows
  | ErrUnique
  | ErrNotNull
  | ErrForeignKey
  | ErrAlreadyExists
  | ErrNoDebtors
  | ErrSyntax
  | ErrRange
  | ErrParse
  | ErrOther

section \<open>The database\<close>

text \<open>
  The two tables of \<^verbatim>\<open>initDB\<close>, as lists of rows in insertion order, which is
  the order a \<^verbatim>\<open>SELECT\<close> without \<^verbatim>\<open>ORDER BY\<close> scans them in. Both
  tables have an \<^verbatim>\<open>INTEGER PRIMARY KEY AUTOINCREMENT\<close>, for which SQLite
  keeps the largest row id ever used per table (\<open>debtors_seq\<close>, \<open>debts_seq\<close>).

  \<open>foreign_keys\<close> is the connection's \<^verbatim>\<open>PRAGMA foreign_keys\<close>. SQLite parses
  the clause \<^verbatim>\<open>FOREIGN KEY (debtor_id) REFERENCES debtors (id) ON DELETE CASCADE\<close>
  of the \<^verbatim>\<open>debts\<close> table on every connection, but enforces it (the check on insert
  and the cascade on delete) only on a connection where the pragma is on. In the words of
  the SQLite documentation, foreign key constraints are disabled by default and must be
  enabled separately for each database connection; the driver the program imports
  (\<^verbatim>\<open>github.com/mattn/go-sqlite3\<close>) turns them on when the data source name carries
  \<^verbatim>\<open>_foreign_keys=1\<close> or when it is built with the tag \<^verbatim>\<open>sqlite_foreign_keys\<close>,
  which nothing in the repository asks for.
\<close>

text \<open>
  Both amount columns are \<^verbatim>\<open>REAL\<close>. SQLite has no NaN: a \<^verbatim>\<open>float64\<close> NaN bound
  to a statement is the SQL value \<^verbatim>\<open>NULL\<close>. \<^verbatim>\<open>debts.amount\<close> is declared
  \<^verbatim>\<open>NOT NULL\<close>, so a statement that would write NaN there fails;
  \<^verbatim>\<open>debtors.payment_amount\<close> may be \<^verbatim>\<open>NULL\<close>, so NaN written there reads back
  as no payment amount. The infinities are stored as they are.
\<close>

record db =
  debtors :: "Debtor list"
  debts :: "Debt list"
  debtors_seq :: int
  debts_seq :: int
  foreign_keys :: bool

text \<open>
  \<^verbatim>\<open>initDB\<close> opens \<^verbatim>\<open>./debt_tracker.db\<close> with the data source name as it
  stands (no \<^verbatim>\<open>_foreign_keys\<close> parameter) and creates the two tables if they are
  missing; neither it nor any other function of the program executes a
  \<^verbatim>\<open>PRAGMA\<close>. On a file that does not exist yet, the result is the empty database
  with foreign keys not enforced.
\<close>

definition initDB :: db where
  "initDB = \<lparr>debtors = [], debts = [], debtors_seq = 0, debts_seq = 0, foreign_keys = False\<rparr>"

text \<open>The row id \<^verbatim>\<open>AUTOINCREMENT\<close> gives a new row: one more than the largest
  id the table ever held. Row ids are unbounded here; a table that has used the largest
  64-bit id (after \<open>2 ^ 63 - 1\<close> insertions) is outside the model.\<close>

definition next_rowid :: "int \<Rightarrow> int list \<Rightarrow> int" where
  "next_rowid seq ids = fold max ids seq + 1"

text \<open>\<^verbatim>\<open>QueryRow(...).Scan(...)\<close>: the first row that matches, or \<^verbatim>\<open>sql.ErrNoRows\<close>.\<close>

definition queryRow :: "('a \<Rightarrow> bool) \<Rightarrow> 'a list \<Rightarrow> error + 'a" where
  "queryRow p rows = (case find p rows of None \<Rightarrow> Inl ErrNoRows | Some r \<Rightarrow> Inr r)"

text \<open>
  \<^verbatim>\<open>addDebtor\<close>: \<^verbatim>\<open>INSERT INTO debtors (name, chat_id) VALUES (?, ?)\<close>. The
  table has \<^verbatim>\<open>UNIQUE(name, chat_id)\<close>; its violation is turned into the error
  "debtor already exists". The new row has no payment date and no payment amount. On
  success the debtor given is returned with the new id.
\<close>

definition addDebtor :: "db \<Rightarrow> Debtor \<Rightarrow> error + (Debtor \<times> db)" where
  "addDebtor s debtor =
     (case (if \<exists>r \<in> set (debtors s).
                  debtor_Name r = debtor_Name debtor \<and> debtor_ChatID r = debtor_ChatID debtor
            then Inl ErrUnique
            else Inr (next_rowid (debtors_seq s) (map debtor_ID (debtors s)))) of
        Inl e \<Rightarrow> if e = ErrUnique then Inl ErrAlreadyExists else Inl e
      | Inr i \<Rightarrow>
          Inr (debtor\<lparr>debtor_ID := i\<rparr>,
               s\<lparr>debtors := debtors s @
                      [\<lparr>debtor_ID = i, debtor_Name = debtor_Name debtor,
                        debtor_ChatID = debtor_ChatID debtor,
                        debtor_PaymentDate = None, debtor_PaymentAmount = None\<rparr>],
                  debtors_seq := i\<rparr>))"

definition getDebtorByName :: "db \<Rightarrow> string \<Rightarrow> int \<Rightarrow> error + Debtor" where
  "getDebtorByName s name chatID =
     queryRow (\<lambda>r. debtor_Name r = name \<and> debtor_ChatID r = chatID) (debtors s)"

definition getDebtorByID :: "db \<Rightarrow> int \<Rightarrow> error + Debtor" where
  "getDebtorByID s ident = queryRow (\<lambda>r. debtor_ID r = ident) (debtors s)"

text \<open>
  \<^verbatim>\<open>addDebt\<close>: \<^verbatim>\<open>INSERT INTO debts (debtor_id, amount, reason) VALUES (?, ?, ?)\<close>.
  An amount that is NaN violates \<^verbatim>\<open>NOT NULL\<close>. The reference to
  \<^verbatim>\<open>debtors (id)\<close> is checked only when foreign keys are enforced.
\<close>

definition addDebt :: "db \<Rightarrow> Debt \<Rightarrow> error + db" where
  "addDebt s debt =
     (if debt_Amount debt = NaN then Inl ErrNotNull
      else if foreign_keys s \<and> \<not> (\<exists>r \<in> set (debtors s). debtor_ID r = debt_DebtorID debt)
      then Inl ErrForeignKey
      else let i = next_rowid (debts_seq s) (map debt_ID (debts s))
           in Inr (s\<lparr>debts := debts s @
                        [\<lparr>debt_ID = i, debt_DebtorID = debt_DebtorID debt,
                          debt_Amount = debt_Amount debt, debt_Reason = debt_Reason debt\<rparr>],
                      debts_seq := i\<rparr>))"

text \<open>\<^verbatim>\<open>listDebtors\<close> selects \<^verbatim>\<open>id, name, payment_date, payment_amount\<close>: the
  \<^verbatim>\<open>ChatID\<close> of the structs it returns keeps its zero value.\<close>

definition listDebtors :: "db \<Rightarrow> int \<Rightarrow> error + Debtor list" where
  "listDebtors s chatID =
     Inr (map (\<lambda>r. r\<lparr>debtor_ChatID := 0\<rparr>) (filter (\<lambda>r. debtor_ChatID r = chatID) (debtors s)))"

text \<open>\<^verbatim>\<open>listDebts\<close> selects \<^verbatim>\<open>id, amount, reason\<close>: the \<^verbatim>\<open>DebtorID\<close> of
  the structs it returns keeps its zero value.\<close>

definition listDebts :: "db \<Rightarrow> int \<Rightarrow> error + Debt list" where
  "listDebts s debtorID =
     Inr (map (\<lambda>r. r\<lparr>debt_DebtorID := 0\<rparr>) (filter (\<lambda>r. debt_DebtorID r = debtorID) (debts s)))"

definition getDebtByID :: "db \<Rightarrow> int \<Rightarrow> error + Debt" where
  "getDebtByID s debtID = queryRow (\<lambda>r. debt_ID r = debtID) (debts s)"

text \<open>The \<^verbatim>\<open>UPDATE\<close> and \<^verbatim>\<open>DELETE\<close> statements succeed whether or not a row
  matches: the source never looks at the number of rows affected. Setting the amount of a
  debt to NaN fails when a row has the id (the row would get \<^verbatim>\<open>NULL\<close> in a
  \<^verbatim>\<open>NOT NULL\<close> column) and leaves the table as it was.\<close>

definition updateDebtAmount :: "db \<Rightarrow> int \<Rightarrow> amount \<Rightarrow> error + db" where
  "updateDebtAmount s debtID newAmount =
     (if newAmount = NaN \<and> (\<exists>r \<in> set (debts s). debt_ID r = debtID) then Inl ErrNotNull
      else Inr (s\<lparr>debts := map (\<lambda>r. if debt_ID r = debtID
                                      then r\<lparr>debt_Amount := newAmount\<rparr> else r)
                                (debts s)\<rparr>))"

definition updateDebtReason :: "db \<Rightarrow> int \<Rightarrow> string \<Rightarrow> error + db" where
  "updateDebtReason s debtID newReason =
     Inr (s\<lparr>debts := map (\<lambda>r. if debt_ID r = debtID then r\<lparr>debt_Reason := newReason\<rparr> else r)
                         (debts s)\<rparr>)"

definition closeDebt :: "db \<Rightarrow> int \<Rightarrow> error + db" where
  "closeDebt s debtID = Inr (s\<lparr>debts := filter (\<lambda>r. debt_ID r \<noteq> debtID) (debts s)\<rparr>)"

text \<open>\<^verbatim>\<open>deleteDebtor\<close>: \<^verbatim>\<open>DELETE FROM debtors WHERE id = ?\<close>. The debts of the
  debtor go with it (\<^verbatim>\<open>ON DELETE CASCADE\<close>) only when foreign keys are enforced.\<close>

definition deleteDebtor :: "db \<Rightarrow> int \<Rightarrow> error + db" where
  "deleteDebtor s debtorID =
     Inr (s\<lparr>debtors := filter (\<lambda>r. debtor_ID r \<noteq> debtorID) (debtors s),
            debts := (if foreign_keys s \<and> (\<exists>r \<in> set (debtors s). debtor_ID r = debtorID)
                      then filter (\<lambda>r. debt_DebtorID r \<noteq> debtorID) (debts s)
                      else debts s)\<rparr>)"

definition updateDebtorPaymentDate :: "db \<Rightarrow> int \<Rightarrow> Time \<Rightarrow> error + db" where
  "updateDebtorPaymentDate s debtorID paymentDate =
     Inr (s\<lparr>debtors := map (\<lambda>r. if debtor_ID r = debtorID
                                 then r\<lparr>debtor_PaymentDate := Some paymentDate\<rparr> else r)
                           (debtors s)\<rparr>)"

text \<open>A payment amount that is NaN is stored as \<^verbatim>\<open>NULL\<close>.\<close>

definition updateDebtorPaymentAmount :: "db \<Rightarrow> int \<Rightarrow> amount \<Rightarrow> error + db" where
  "updateDebtorPaymentAmount s debtorID paymentAmount =
     Inr (s\<lparr>debtors := map (\<lambda>r. if debtor_ID r = debtorID
                                 then r\<lparr>debtor_PaymentAmount :=
                                          (if paymentAmount = NaN then None
                                           else Some paymentAmount)\<rparr>
                                 else r)
                           (debtors s)\<rparr>)"

definition clearDebtorPaymentDate :: "db \<Rightarrow> int \<Rightarrow> error + db" where
  "clearDebtorPaymentDate s debtorID =
     Inr (s\<lparr>debtors := map (\<lambda>r. if debtor_ID r = debtorID
                                 then r\<lparr>debtor_PaymentDate := None\<rparr> else r)
                           (debtors s)\<rparr>)"

definition clearDebtorPaymentAmount :: "db \<Rightarrow> int \<Rightarrow> error + db" where
  "clearDebtorPaymentAmount s debtorID =
     Inr (s\<lparr>debtors := map (\<lambda>r. if debtor_ID r = debtorID
                                 then r\<lparr>debtor_PaymentAmount := None\<rparr> else r)
                           (debtors s)\<rparr>)"

section \<open>Library functions\<close>

text \<open>
  \<^verbatim>\<open>strconv.ParseFloat\<close>, \<^verbatim>\<open>strconv.Atoi\<close> and \<^verbatim>\<open>time.Parse\<close> belong
  to the Go standard library, not to the program. The handlers take them as parameters,
  so every theorem below holds whatever these functions accept. \<open>Atoi\<close> returns a
  value together with its error, as in Go: some callers ignore the error and use the
  value. \<open>ParseFloat\<close> may return any \<^verbatim>\<open>float64\<close>, NaN and the infinities included,
  as the Go function does for texts such as \<^verbatim>\<open>NaN\<close> and \<^verbatim>\<open>Inf\<close>.

  \<open>round64\<close> is the rounding of an exact result to \<^verbatim>\<open>float64\<close> that the machine
  does after an arithmetic operation on finite values; it is a parameter as well.
\<close>

record env =
  ParseFloat :: "string \<Rightarrow> error + amount"
  Atoi :: "string \<Rightarrow> int \<times> error option"
  timeParse :: "string \<Rightarrow> string \<Rightarrow> error + Time"
  round64 :: "rat \<Rightarrow> float64"

text \<open>The subtraction \<^verbatim>\<open>x - y\<close> of Go on \<^verbatim>\<open>float64\<close>: NaN when an operand is
  NaN or both are the same infinity, an infinity when one operand is, and the rounded
  difference of two finite values.\<close>

fun fsub :: "env \<Rightarrow> float64 \<Rightarrow> float64 \<Rightarrow> float64" where
  "fsub E NaN y = NaN"
| "fsub E x NaN = NaN"
| "fsub E PInf PInf = NaN"
| "fsub E NInf NInf = NaN"
| "fsub E PInf y = PInf"
| "fsub E NInf y = NInf"
| "fsub E (Fin a) PInf = NInf"
| "fsub E (Fin a) NInf = PInf"
| "fsub E (Fin a) (Fin b) = round64 E (a - b)"

definition HasPrefix :: "string \<Rightarrow> string \<Rightarrow> bool" where
  "HasPrefix s p = (take (length p) s = p)"

definition TrimPrefix :: "string \<Rightarrow> string \<Rightarrow> string" where
  "TrimPrefix s p = (if HasPrefix s p then drop (length p) s else s)"

section \<open>Messages to the user\<close>

text \<open>
  The texts the bot sends are Russian sentences; each is a constructor here, with the
  values formatted into it. \<open>prompt\<close> are the questions of the dialog, \<open>corrective\<close>
  the answers to input that is refused, \<open>failure\<close> the reports of a failed store
  operation, \<open>notice\<close> everything else. \<open>DebtorList\<close> is the keyboard of
  \<^verbatim>\<open>handleDebtsCommand\<close> (each debtor with the number of its debts) and
  \<open>Details\<close> the view of \<^verbatim>\<open>showDebtorDetails\<close> (the debtor and the debts listed).
\<close>

datatype prompt =
    AskDebtorName
  | AskReason string
  | AskAmount string string
  | AskConfirmClose amount string
  | AskWhatToEdit
  | AskNewAmount
  | AskNewReason
  | AskSubtract amount
  | AskConfirmDeleteDebtor string
  | AskPaymentDate
  | AskPaymentAmount
  | AskNewPaymentDate
  | AskNewPaymentAmount

datatype corrective =
    DebtorExists string
  | BadDebtAmount
  | BadAmount
  | BadSubtractAmount
  | SubtractTooLarge
  | BadDateSet
  | BadDateEdit
  | BadPaymentAmount

datatype failure =
    ListDebtorsFailed
  | ExportFailed
  | LookupFailed
  | AddDebtorFailed
  | AddDebtFailed
  | UpdateAmountFailed
  | UpdateReasonFailed
  | SubtractFailed
  | PaymentDateFailed
  | SetPaymentAmountFailed
  | UpdatePaymentAmountFailed
  | DebtorInfoFailed
  | CloseFailed
  | DeleteDebtorFailed
  | ClearDateFailed
  | ClearAmountFailed
  | ListDebtsFailed

datatype notice =
    Welcome
  | Help
  | NoDebtors
  | NoExportData
  | UnknownCommand
  | Hint
  | DebtAdded string amount string
  | AmountUpdated
  | ReasonUpdated
  | DebtSettled amount string
  | Subtracted amount amount
  | PaymentDateSet string Time
  | PaymentAmountSet string amount
  | PaymentDateUpdated Time
  | PaymentAmountUpdated
  | DebtorNotFound
  | DebtClosed
  | Cancelled
  | DebtorDeleted string
  | DateCleared
  | AmountCleared

datatype reply =
    Prompt prompt
  | Corrective corrective
  | Failure failure
  | Notice notice
  | DebtorList "(Debtor \<times> nat) list"
  | Details Debtor "Debt list"

text \<open>
  What a handler does towards the outside: \<open>Send chat r\<close> is a new message
  (\<^verbatim>\<open>sendSimpleMessage\<close>, \<^verbatim>\<open>sendWithKeyboard\<close>), \<open>Edit chat m r\<close> the edit of
  message \<open>m\<close> (\<^verbatim>\<open>editMessageWithKeyboard\<close>), \<open>Photo\<close> and \<open>Document\<close> the
  banner and the CSV file, \<open>LogLine\<close> a line of \<^verbatim>\<open>log.Printf\<close>, which the user
  does not see. Failures of the transport are not modelled.
\<close>

datatype out =
    Send int reply
  | Edit int int reply
  | Photo int
  | Document int
  | LogLine

section \<open>Conversation state\<close>

text \<open>The database handle and the three global maps, keyed by chat id.\<close>

record world =
  DB :: db
  userStates :: "int \<rightharpoonup> State"
  currentDebtors :: "int \<rightharpoonup> Debtor"
  selectedDebts :: "int \<rightharpoonup> Debt"

text \<open>Reading a Go map at a missing key gives the zero value of the value type.\<close>

definition stateOf :: "world \<Rightarrow> int \<Rightarrow> State" where
  "stateOf w chatID = (case userStates w chatID of None \<Rightarrow> StateIdle | Some st \<Rightarrow> st)"

definition currentDebtor :: "world \<Rightarrow> int \<Rightarrow> Debtor" where
  "currentDebtor w chatID = (case currentDebtors w chatID of None \<Rightarrow> zeroDebtor | Some d \<Rightarrow> d)"

definition selectedDebt :: "world \<Rightarrow> int \<Rightarrow> Debt" where
  "selectedDebt w chatID = (case selectedDebts w chatID of None \<Rightarrow> zeroDebt | Some d \<Rightarrow> d)"

definition clearUserState :: "world \<Rightarrow> int \<Rightarrow> world" where
  "clearUserState w chatID =
     w\<lparr>userStates := (userStates w)(chatID := None),
       currentDebtors := (currentDebtors w)(chatID := None),
       selectedDebts := (selectedDebts w)(chatID := None)\<rparr>"

definition setState :: "world \<Rightarrow> int \<Rightarrow> State \<Rightarrow> world" where
  "setState w chatID st = w\<lparr>userStates := (userStates w)(chatID \<mapsto> st)\<rparr>"

definition setCurrentDebtor :: "world \<Rightarrow> int \<Rightarrow> Debtor \<Rightarrow> world" where
  "setCurrentDebtor w chatID d = w\<lparr>currentDebtors := (currentDebtors w)(chatID \<mapsto> d)\<rparr>"

definition setSelectedDebt :: "world \<Rightarrow> int \<Rightarrow> Debt \<Rightarrow> world" where
  "setSelectedDebt w chatID d = w\<lparr>selectedDebts := (selectedDebts w)(chatID \<mapsto> d)\<rparr>"

text \<open>The process starts with the database as opened and the three maps empty.\<close>

definition initWorld :: "db \<Rightarrow> world" where
  "initWorld s = \<lparr>DB = s, userStates = Map.empty, currentDebtors = Map.empty,
     selectedDebts = Map.empty\<rparr>"

section \<open>Showing a debtor\<close>

text \<open>\<^verbatim>\<open>showDebtorDetails\<close> reads the debtor again, makes it the chat's current debtor
  and sends the view of its debts.\<close>

definition showDebtorDetails :: "world \<Rightarrow> int \<Rightarrow> int \<Rightarrow> world \<times> out list" where
  "showDebtorDetails w chatID debtorID =
     (case getDebtorByID (DB w) debtorID of
        Inl e \<Rightarrow>
          (w, [LogLine, Send chatID (if e = ErrNoRows then Notice DebtorNotFound
                                     else Failure DebtorInfoFailed)])
      | Inr debtor \<Rightarrow>
          (let w1 = setCurrentDebtor w chatID debtor
           in case listDebts (DB w1) debtorID of
                Inl e \<Rightarrow> (w1, [LogLine, Send chatID (Failure ListDebtsFailed)])
              | Inr ds \<Rightarrow> (w1, [Send chatID (Details debtor ds)])))"

section \<open>Command handlers\<close>

text \<open>Every command handler starts by clearing the chat's conversation state.\<close>

definition handleStartCommand :: "world \<Rightarrow> int \<Rightarrow> world \<times> out list" where
  "handleStartCommand w chatID = (clearUserState w chatID, [Photo chatID, Send chatID (Notice Welcome)])"

definition handleAddCommand :: "world \<Rightarrow> int \<Rightarrow> world \<times> out list" where
  "handleAddCommand w chatID =
     (setState (clearUserState w chatID) chatID StateAddingDebtorName,
      [Send chatID (Prompt AskDebtorName)])"

text \<open>The error of \<^verbatim>\<open>listDebts\<close> is dropped in \<^verbatim>\<open>handleDebtsCommand\<close>: the
  debtor is then shown with no debts.\<close>

definition handleDebtsCommand :: "world \<Rightarrow> int \<Rightarrow> world \<times> out list" where
  "handleDebtsCommand w chatID =
     (let w1 = clearUserState w chatID
      in case listDebtors (DB w1) chatID of
           Inl e \<Rightarrow> (w1, [LogLine, Send chatID (Failure ListDebtorsFailed)])
         | Inr ds \<Rightarrow>
             if length ds = 0 then (w1, [Send chatID (Notice NoDebtors)])
             else (w1, [Send chatID (DebtorList
                     (map (\<lambda>debtor. (debtor,
                             case listDebts (DB w1) (debtor_ID debtor) of
                               Inl e \<Rightarrow> 0 | Inr xs \<Rightarrow> length xs)) ds))]))"

definition handleHelpCommand :: "world \<Rightarrow> int \<Rightarrow> world \<times> out list" where
  "handleHelpCommand w chatID = (clearUserState w chatID, [Send chatID (Notice Help)])"

text \<open>\<^verbatim>\<open>generateCSV\<close> reads the debtors of the chat and their debts and writes a
  file. The file itself is not modelled, only whether there is one.\<close>

definition generateCSV :: "db \<Rightarrow> int \<Rightarrow> error + unit" where
  "generateCSV s chatID =
     (case listDebtors s chatID of
        Inl e \<Rightarrow> Inl e
      | Inr ds \<Rightarrow> if length ds = 0 then Inl ErrNoDebtors else Inr ())"

definition handleExportCSVCommand :: "world \<Rightarrow> int \<Rightarrow> world \<times> out list" where
  "handleExportCSVCommand w chatID =
     (let w1 = clearUserState w chatID
      in case generateCSV (DB w1) chatID of
           Inl e \<Rightarrow> (w1, [LogLine, Send chatID (if e = ErrNoDebtors then Notice NoExportData
                                                else Failure ExportFailed)])
         | Inr u \<Rightarrow> (w1, [Document chatID]))"

section \<open>The message handler\<close>

text \<open>
  \<^verbatim>\<open>handleMessage\<close> switches on the chat's state. Each case of the switch is a
  definition of its own here, named after the state it handles.

  \<open>StateAddingDebtorName\<close>: the name is looked up first; only when no debtor has it is
  one created. \<open>afterAddDebtor\<close> is what the case does with the result of
  \<^verbatim>\<open>addDebtor\<close>, and \<open>askReason\<close> its last two statements.
\<close>

definition askReason :: "world \<Rightarrow> int \<Rightarrow> world \<times> out list" where
  "askReason w chatID =
     (setState w chatID StateAddingDebtReason,
      [Send chatID (Prompt (AskReason (debtor_Name (currentDebtor w chatID))))])"

definition afterAddDebtor ::
  "world \<Rightarrow> int \<Rightarrow> string \<Rightarrow> error + (Debtor \<times> db) \<Rightarrow> world \<times> out list" where
  "afterAddDebtor w chatID txt r =
     (case r of
        Inl e \<Rightarrow>
          if e = ErrAlreadyExists then (w, [Send chatID (Corrective (DebtorExists txt))])
          else (clearUserState w chatID, [LogLine, Send chatID (Failure AddDebtorFailed)])
      | Inr (newDebtor, s') \<Rightarrow> askReason (setCurrentDebtor (w\<lparr>DB := s'\<rparr>) chatID newDebtor) chatID)"

definition onAddingDebtorName :: "world \<Rightarrow> int \<Rightarrow> string \<Rightarrow> world \<times> out list" where
  "onAddingDebtorName w chatID txt =
     (case getDebtorByName (DB w) txt chatID of
        Inl e \<Rightarrow>
          if e \<noteq> ErrNoRows
          then (clearUserState w chatID, [LogLine, Send chatID (Failure LookupFailed)])
          else afterAddDebtor w chatID txt
                 (addDebtor (DB w) (zeroDebtor\<lparr>debtor_Name := txt, debtor_ChatID := chatID\<rparr>))
      | Inr debtor \<Rightarrow> askReason (setCurrentDebtor w chatID debtor) chatID)"

definition onAddingDebtReason :: "world \<Rightarrow> int \<Rightarrow> string \<Rightarrow> world \<times> out list" where
  "onAddingDebtReason w chatID txt =
     (setState
        (setSelectedDebt w chatID
           (zeroDebt\<lparr>debt_DebtorID := debtor_ID (currentDebtor w chatID), debt_Reason := txt\<rparr>))
        chatID StateAddingDebtAmount,
      [Send chatID (Prompt (AskAmount (debtor_Name (currentDebtor w chatID)) txt))])"

text \<open>The amount states share their validation. \<open>validAmount\<close> is the condition
  \<^verbatim>\<open>err != nil || amount <= 0\<close>, negated: it gives the amount when the text parses and
  the comparison \<^verbatim>\<open>amount <= 0\<close> is false, which it is for a positive number, for
  the positive infinity and for NaN.\<close>

definition validAmount :: "env \<Rightarrow> string \<Rightarrow> amount option" where
  "validAmount E txt =
     (case ParseFloat E txt of
        Inl e \<Rightarrow> None
      | Inr a \<Rightarrow> if fle a (Fin 0) then None else Some a)"

definition onAddingDebtAmount :: "env \<Rightarrow> world \<Rightarrow> int \<Rightarrow> string \<Rightarrow> world \<times> out list" where
  "onAddingDebtAmount E w chatID txt =
     (case validAmount E txt of
        None \<Rightarrow> (w, [Send chatID (Corrective BadDebtAmount)])
      | Some a \<Rightarrow>
          (let debt = zeroDebt\<lparr>debt_DebtorID := debtor_ID (currentDebtor w chatID),
                               debt_Amount := a,
                               debt_Reason := debt_Reason (selectedDebt w chatID)\<rparr>
           in case addDebt (DB w) debt of
                Inl e \<Rightarrow> (clearUserState w chatID, [LogLine, Send chatID (Failure AddDebtFailed)])
              | Inr s' \<Rightarrow>
                  (clearUserState (w\<lparr>DB := s'\<rparr>) chatID,
                   [Send chatID (Notice (DebtAdded (debtor_Name (currentDebtor w chatID)) a
                                           (debt_Reason debt)))])))"

text \<open>The handlers that show the debtor afterwards clear the state last, which also
  drops the current debtor that \<^verbatim>\<open>showDebtorDetails\<close> has just set.\<close>

definition showThenClear :: "world \<Rightarrow> int \<Rightarrow> int \<Rightarrow> reply \<Rightarrow> world \<times> out list" where
  "showThenClear w chatID debtorID r =
     (case showDebtorDetails w chatID debtorID of
        (w', os) \<Rightarrow> (clearUserState w' chatID, Send chatID r # os))"

definition onEditingAmount :: "env \<Rightarrow> world \<Rightarrow> int \<Rightarrow> string \<Rightarrow> world \<times> out list" where
  "onEditingAmount E w chatID txt =
     (case validAmount E txt of
        None \<Rightarrow> (w, [Send chatID (Corrective BadAmount)])
      | Some a \<Rightarrow>
          (case updateDebtAmount (DB w) (debt_ID (selectedDebt w chatID)) a of
             Inl e \<Rightarrow> (clearUserState w chatID, [LogLine, Send chatID (Failure UpdateAmountFailed)])
           | Inr s' \<Rightarrow>
               showThenClear (w\<lparr>DB := s'\<rparr>) chatID (debtor_ID (currentDebtor w chatID))
                 (Notice AmountUpdated)))"

definition onEditingReason :: "world \<Rightarrow> int \<Rightarrow> string \<Rightarrow> world \<times> out list" where
  "onEditingReason w chatID txt =
     (case updateDebtReason (DB w) (debt_ID (selectedDebt w chatID)) txt of
        Inl e \<Rightarrow> (clearUserState w chatID, [LogLine, Send chatID (Failure UpdateReasonFailed)])
      | Inr s' \<Rightarrow>
          showThenClear (w\<lparr>DB := s'\<rparr>) chatID (debtor_ID (currentDebtor w chatID))
            (Notice ReasonUpdated))"

text \<open>
  \<open>StateSubtractingFromDebt\<close>: the amount is compared with the amount of the chat's
  selected debt, the copy read when the subtract button was pressed. The remainder is
  the \<^verbatim>\<open>float64\<close> difference. It is written first: when that fails the user is told
  and the state cleared. When the remainder compares equal to zero the debt is then
  deleted, and the error of that \<^verbatim>\<open>closeDebt\<close> is dropped.
\<close>

definition onSubtractingFromDebt :: "env \<Rightarrow> world \<Rightarrow> int \<Rightarrow> string \<Rightarrow> world \<times> out list" where
  "onSubtractingFromDebt E w chatID txt =
     (case validAmount E txt of
        None \<Rightarrow> (w, [Send chatID (Corrective BadSubtractAmount)])
      | Some amountToSubtract \<Rightarrow>
          (let debt = selectedDebt w chatID
           in if flt (debt_Amount debt) amountToSubtract
              then (w, [Send chatID (Corrective SubtractTooLarge)])
              else
                (let newAmount = fsub E (debt_Amount debt) amountToSubtract
                 in case updateDebtAmount (DB w) (debt_ID debt) newAmount of
                      Inl e \<Rightarrow>
                        (clearUserState w chatID, [LogLine, Send chatID (Failure SubtractFailed)])
                    | Inr s1 \<Rightarrow>
                        if feq newAmount (Fin 0)
                        then showThenClear
                               (w\<lparr>DB := (case closeDebt s1 (debt_ID debt) of
                                            Inl e \<Rightarrow> s1 | Inr s2 \<Rightarrow> s2)\<rparr>)
                               chatID (debt_DebtorID debt)
                               (Notice (DebtSettled (debt_Amount debt) (debt_Reason debt)))
                        else showThenClear (w\<lparr>DB := s1\<rparr>) chatID (debt_DebtorID debt)
                               (Notice (Subtracted amountToSubtract newAmount)))))"

text \<open>
  The date states try the layouts of \<open>formats\<close> in order and stop at the first that
  parses. \<open>tryFormats\<close> is the \<^verbatim>\<open>for\<close> loop, with the pair \<^verbatim>\<open>t, err\<close> it
  assigns as its last argument; before the loop \<^verbatim>\<open>err\<close> is \<^verbatim>\<open>nil\<close> and
  \<^verbatim>\<open>t\<close> the zero time.
\<close>

definition formats :: "string list" where
  "formats = [''02.01.2006'', ''02.01.06'', ''2.1.2006'', ''2.1.06'',
              ''02-01-2006'', ''02-01-06'', ''2-1-2006'', ''2-1-06'']"

definition zeroTime :: Time where
  "zeroTime = (1, 1, 1)"

fun tryFormats :: "env \<Rightarrow> string list \<Rightarrow> string \<Rightarrow> error + Time \<Rightarrow> error + Time" where
  "tryFormats E [] txt r = r"
| "tryFormats E (f # fs) txt r =
     (case timeParse E f txt of
        Inr t \<Rightarrow> Inr t
      | Inl e \<Rightarrow> tryFormats E fs txt (Inl e))"

definition parseDate :: "env \<Rightarrow> string \<Rightarrow> error + Time" where
  "parseDate E txt = tryFormats E formats txt (Inr zeroTime)"

definition onSettingPaymentDate :: "env \<Rightarrow> world \<Rightarrow> int \<Rightarrow> string \<Rightarrow> world \<times> out list" where
  "onSettingPaymentDate E w chatID txt =
     (case parseDate E txt of
        Inl e \<Rightarrow> (w, [Send chatID (Corrective BadDateSet)])
      | Inr t \<Rightarrow>
          (let cd = currentDebtor w chatID
           in case updateDebtorPaymentDate (DB w) (debtor_ID cd) t of
                Inl e \<Rightarrow>
                  (clearUserState w chatID, [LogLine, Send chatID (Failure PaymentDateFailed)])
              | Inr s' \<Rightarrow>
                  showThenClear (w\<lparr>DB := s'\<rparr>) chatID (debtor_ID cd)
                    (Notice (PaymentDateSet (debtor_Name cd) t))))"

text \<open>\<open>StateSettingPaymentAmount\<close> clears the state before it shows the debtor, whose id
  it took before: the debtor shown stays the chat's current debtor.\<close>

definition onSettingPaymentAmount :: "env \<Rightarrow> world \<Rightarrow> int \<Rightarrow> string \<Rightarrow> world \<times> out list" where
  "onSettingPaymentAmount E w chatID txt =
     (case validAmount E txt of
        None \<Rightarrow> (w, [Send chatID (Corrective BadPaymentAmount)])
      | Some a \<Rightarrow>
          (let cd = currentDebtor w chatID
           in case (case updateDebtorPaymentAmount (DB w) (debtor_ID cd) a of
                      Inl e \<Rightarrow> (w, [LogLine, Send chatID (Failure SetPaymentAmountFailed)])
                    | Inr s' \<Rightarrow>
                        (w\<lparr>DB := s'\<rparr>,
                         [Send chatID (Notice (PaymentAmountSet (debtor_Name cd) a))])) of
                (w1, os1) \<Rightarrow>
                  (case showDebtorDetails (clearUserState w1 chatID) chatID (debtor_ID cd) of
                     (w2, os2) \<Rightarrow> (w2, os1 @ os2))))"

definition onEditingPaymentDate :: "env \<Rightarrow> world \<Rightarrow> int \<Rightarrow> string \<Rightarrow> world \<times> out list" where
  "onEditingPaymentDate E w chatID txt =
     (case parseDate E txt of
        Inl e \<Rightarrow> (w, [Send chatID (Corrective BadDateEdit)])
      | Inr t \<Rightarrow>
          (case updateDebtorPaymentDate (DB w) (debtor_ID (currentDebtor w chatID)) t of
             Inl e \<Rightarrow>
               (clearUserState w chatID, [LogLine, Send chatID (Failure PaymentDateFailed)])
           | Inr s' \<Rightarrow>
               showThenClear (w\<lparr>DB := s'\<rparr>) chatID (debtor_ID (currentDebtor w chatID))
                 (Notice (PaymentDateUpdated t))))"

text \<open>\<open>StateEditingPaymentAmount\<close> clears the state and then reads the current debtor of
  the chat for the view: by then that is the zero debtor, with id 0.\<close>

definition onEditingPaymentAmount :: "env \<Rightarrow> world \<Rightarrow> int \<Rightarrow> string \<Rightarrow> world \<times> out list" where
  "onEditingPaymentAmount E w chatID txt =
     (case validAmount E txt of
        None \<Rightarrow> (w, [Send chatID (Corrective BadPaymentAmount)])
      | Some a \<Rightarrow>
          (case (case updateDebtorPaymentAmount (DB w) (debtor_ID (currentDebtor w chatID)) a of
                   Inl e \<Rightarrow> (w, [LogLine, Send chatID (Failure UpdatePaymentAmountFailed)])
                 | Inr s' \<Rightarrow> (w\<lparr>DB := s'\<rparr>, [Send chatID (Notice PaymentAmountUpdated)])) of
             (w1, os1) \<Rightarrow>
               (let w2 = clearUserState w1 chatID
                in case showDebtorDetails w2 chatID (debtor_ID (currentDebtor w2 chatID)) of
                     (w3, os3) \<Rightarrow> (w3, os1 @ os3))))"

definition handleMessage :: "env \<Rightarrow> world \<Rightarrow> int \<Rightarrow> string \<Rightarrow> world \<times> out list" where
  "handleMessage E w chatID txt =
     (case stateOf w chatID of
        StateAddingDebtorName \<Rightarrow> onAddingDebtorName w chatID txt
      | StateAddingDebtReason \<Rightarrow> onAddingDebtReason w chatID txt
      | StateAddingDebtAmount \<Rightarrow> onAddingDebtAmount E w chatID txt
      | StateEditingAmount \<Rightarrow> onEditingAmount E w chatID txt
      | StateEditingReason \<Rightarrow> onEditingReason w chatID txt
      | StateSubtractingFromDebt \<Rightarrow> onSubtractingFromDebt E w chatID txt
      | StateSettingPaymentDate \<Rightarrow> onSettingPaymentDate E w chatID txt
      | StateSettingPaymentAmount \<Rightarrow> onSettingPaymentAmount E w chatID txt
      | StateEditingPaymentDate \<Rightarrow> onEditingPaymentDate E w chatID txt
      | StateEditingPaymentAmount \<Rightarrow> onEditingPaymentAmount E w chatID txt
      | _ \<Rightarrow> (clearUserState w chatID, [Send chatID (Notice Hint)]))"

section \<open>The callback handler\<close>

text \<open>
  \<^verbatim>\<open>handleCallbackQuery\<close> switches on the payload of the button pressed. Each case
  is a definition of its own, named after the payload; the cases that carry an id take
  the text after the prefix.

  \<open>select_debtor:\<close> reads the debtor. When there is none the user is told and the
  state is cleared. Otherwise the state is cleared and the debtor shown, which makes it
  the current debtor of the chat again.
\<close>

definition cbSelectDebtor :: "env \<Rightarrow> world \<Rightarrow> int \<Rightarrow> string \<Rightarrow> world \<times> out list" where
  "cbSelectDebtor E w chatID debtorIDStr =
     (case Atoi E debtorIDStr of
        (debtorID, Some e) \<Rightarrow> (w, [LogLine])
      | (debtorID, None) \<Rightarrow>
          (case getDebtorByID (DB w) debtorID of
             Inl e \<Rightarrow>
               (clearUserState w chatID,
                if e = ErrNoRows then [Send chatID (Notice DebtorNotFound)]
                else [LogLine, Send chatID (Failure DebtorInfoFailed)])
           | Inr debtor \<Rightarrow>
               showDebtorDetails (clearUserState (setCurrentDebtor w chatID debtor) chatID)
                 chatID debtorID))"

text \<open>\<open>close_debt:\<close>, \<open>edit_debt:\<close> and \<open>subtract_from_debt:\<close> read the debt; when the
  id does not parse or no debt has it, they write a log line and return.\<close>

definition cbCloseDebt :: "env \<Rightarrow> world \<Rightarrow> int \<Rightarrow> int \<Rightarrow> string \<Rightarrow> world \<times> out list" where
  "cbCloseDebt E w chatID messageID debtIDStr =
     (case Atoi E debtIDStr of
        (debtID, Some e) \<Rightarrow> (w, [LogLine])
      | (debtID, None) \<Rightarrow>
          (case getDebtByID (DB w) debtID of
             Inl e \<Rightarrow> (w, [LogLine])
           | Inr debt \<Rightarrow>
               (setState (setSelectedDebt w chatID debt) chatID StateConfirmingCloseDebt,
                [Edit chatID messageID
                   (Prompt (AskConfirmClose (debt_Amount debt) (debt_Reason debt)))])))"

text \<open>\<open>confirm_close:\<close> drops the error of \<^verbatim>\<open>Atoi\<close> and deletes the debt with the
  value it got, without reading it first.\<close>

definition cbConfirmClose :: "env \<Rightarrow> world \<Rightarrow> int \<Rightarrow> int \<Rightarrow> string \<Rightarrow> world \<times> out list" where
  "cbConfirmClose E w chatID messageID debtIDStr =
     (let debtID = fst (Atoi E debtIDStr)
      in case (case closeDebt (DB w) debtID of
                 Inl e \<Rightarrow> (w, [LogLine, Send chatID (Failure CloseFailed)])
               | Inr s' \<Rightarrow> (w\<lparr>DB := s'\<rparr>, [Edit chatID messageID (Notice DebtClosed)])) of
           (w1, os1) \<Rightarrow>
             (case showDebtorDetails w1 chatID (debtor_ID (currentDebtor w1 chatID)) of
                (w2, os2) \<Rightarrow> (clearUserState w2 chatID, os1 @ os2)))"

definition cbCancelOperation :: "world \<Rightarrow> int \<Rightarrow> int \<Rightarrow> world \<times> out list" where
  "cbCancelOperation w chatID messageID =
     (let w1 = clearUserState w chatID
      in case currentDebtors w1 chatID of
           None \<Rightarrow> (w1, [Edit chatID messageID (Notice Cancelled)])
         | Some d \<Rightarrow>
             (case showDebtorDetails w1 chatID (debtor_ID (currentDebtor w1 chatID)) of
                (w2, os2) \<Rightarrow> (w2, Edit chatID messageID (Notice Cancelled) # os2)))"

definition cbEditDebt :: "env \<Rightarrow> world \<Rightarrow> int \<Rightarrow> int \<Rightarrow> string \<Rightarrow> world \<times> out list" where
  "cbEditDebt E w chatID messageID debtIDStr =
     (case Atoi E debtIDStr of
        (debtID, Some e) \<Rightarrow> (w, [LogLine])
      | (debtID, None) \<Rightarrow>
          (case getDebtByID (DB w) debtID of
             Inl e \<Rightarrow> (w, [LogLine])
           | Inr debt \<Rightarrow>
               (setState (setSelectedDebt w chatID debt) chatID StateEditingChooseWhatToEdit,
                [Edit chatID messageID (Prompt AskWhatToEdit)])))"

text \<open>\<open>edit_amount:\<close> and \<open>edit_reason:\<close> drop the error of \<^verbatim>\<open>Atoi\<close> and select a
  debt that has the id and nothing else, without reading the store.\<close>

definition cbEditAmount :: "env \<Rightarrow> world \<Rightarrow> int \<Rightarrow> int \<Rightarrow> string \<Rightarrow> world \<times> out list" where
  "cbEditAmount E w chatID messageID debtIDStr =
     (let debtID = fst (Atoi E debtIDStr)
      in (setState (setSelectedDebt w chatID (zeroDebt\<lparr>debt_ID := debtID\<rparr>)) chatID
            StateEditingAmount,
          [Edit chatID messageID (Prompt AskNewAmount)]))"

definition cbEditReason :: "env \<Rightarrow> world \<Rightarrow> int \<Rightarrow> int \<Rightarrow> string \<Rightarrow> world \<times> out list" where
  "cbEditReason E w chatID messageID debtIDStr =
     (let debtID = fst (Atoi E debtIDStr)
      in (setState (setSelectedDebt w chatID (zeroDebt\<lparr>debt_ID := debtID\<rparr>)) chatID
            StateEditingReason,
          [Edit chatID messageID (Prompt AskNewReason)]))"

definition cbSubtractFromDebt :: "env \<Rightarrow> world \<Rightarrow> int \<Rightarrow> int \<Rightarrow> string \<Rightarrow> world \<times> out list" where
  "cbSubtractFromDebt E w chatID messageID debtIDStr =
     (case Atoi E debtIDStr of
        (debtID, Some e) \<Rightarrow> (w, [LogLine])
      | (debtID, None) \<Rightarrow>
          (case getDebtByID (DB w) debtID of
             Inl e \<Rightarrow> (w, [LogLine])
           | Inr debt \<Rightarrow>
               (setState (setSelectedDebt w chatID debt) chatID StateSubtractingFromDebt,
                [Edit chatID messageID (Prompt (AskSubtract (debt_Amount debt)))])))"

text \<open>The payloads without an id work on the current debtor of the chat.\<close>

definition cbAddDebtToExisting :: "world \<Rightarrow> int \<Rightarrow> int \<Rightarrow> world \<times> out list" where
  "cbAddDebtToExisting w chatID messageID =
     (setState w chatID StateAddingDebtReason,
      [Edit chatID messageID (Prompt (AskReason (debtor_Name (currentDebtor w chatID))))])"

definition cbDeleteDebtor :: "world \<Rightarrow> int \<Rightarrow> int \<Rightarrow> world \<times> out list" where
  "cbDeleteDebtor w chatID messageID =
     (setState w chatID StateConfirmingDeleteDebtor,
      [Edit chatID messageID
         (Prompt (AskConfirmDeleteDebtor (debtor_Name (currentDebtor w chatID))))])"

definition cbConfirmDeleteDebtor :: "world \<Rightarrow> int \<Rightarrow> int \<Rightarrow> world \<times> out list" where
  "cbConfirmDeleteDebtor w chatID messageID =
     (let debtorID = debtor_ID (currentDebtor w chatID)
      in case deleteDebtor (DB w) debtorID of
           Inl e \<Rightarrow> (clearUserState w chatID, [LogLine, Send chatID (Failure DeleteDebtorFailed)])
         | Inr s' \<Rightarrow>
             (clearUserState (w\<lparr>DB := s'\<rparr>) chatID,
              [Edit chatID messageID
                 (Notice (DebtorDeleted (debtor_Name (currentDebtor w chatID))))]))"

definition cbAsk :: "world \<Rightarrow> int \<Rightarrow> int \<Rightarrow> State \<Rightarrow> prompt \<Rightarrow> world \<times> out list" where
  "cbAsk w chatID messageID st q = (setState w chatID st, [Edit chatID messageID (Prompt q)])"

definition cbClearPaymentDate :: "world \<Rightarrow> int \<Rightarrow> int \<Rightarrow> world \<times> out list" where
  "cbClearPaymentDate w chatID messageID =
     (case clearDebtorPaymentDate (DB w) (debtor_ID (currentDebtor w chatID)) of
        Inl e \<Rightarrow> (clearUserState w chatID, [LogLine, Send chatID (Failure ClearDateFailed)])
      | Inr s' \<Rightarrow>
          (case showDebtorDetails (w\<lparr>DB := s'\<rparr>) chatID (debtor_ID (currentDebtor w chatID)) of
             (w2, os2) \<Rightarrow>
               (clearUserState w2 chatID, Edit chatID messageID (Notice DateCleared) # os2)))"

definition cbClearPaymentAmount :: "world \<Rightarrow> int \<Rightarrow> int \<Rightarrow> world \<times> out list" where
  "cbClearPaymentAmount w chatID messageID =
     (case clearDebtorPaymentAmount (DB w) (debtor_ID (currentDebtor w chatID)) of
        Inl e \<Rightarrow> (clearUserState w chatID, [LogLine, Send chatID (Failure ClearAmountFailed)])
      | Inr s' \<Rightarrow>
          (case showDebtorDetails (w\<lparr>DB := s'\<rparr>) chatID (debtor_ID (currentDebtor w chatID)) of
             (w2, os2) \<Rightarrow>
               (clearUserState w2 chatID, Edit chatID messageID (Notice AmountCleared) # os2)))"

definition handleCallbackQuery ::
  "env \<Rightarrow> world \<Rightarrow> int \<Rightarrow> int \<Rightarrow> string \<Rightarrow> world \<times> out list" where
  "handleCallbackQuery E w chatID messageID payload =
     (if HasPrefix payload ''select_debtor:''
        then cbSelectDebtor E w chatID (TrimPrefix payload ''select_debtor:'')
      else if HasPrefix payload ''close_debt:''
        then cbCloseDebt E w chatID messageID (TrimPrefix payload ''close_debt:'')
      else if HasPrefix payload ''confirm_close:''
        then cbConfirmClose E w chatID messageID (TrimPrefix payload ''confirm_close:'')
      else if payload = ''cancel_operation''
        then cbCancelOperation w chatID messageID
      else if HasPrefix payload ''edit_debt:''
        then cbEditDebt E w chatID messageID (TrimPrefix payload ''edit_debt:'')
      else if HasPrefix payload ''edit_amount:''
        then cbEditAmount E w chatID messageID (TrimPrefix payload ''edit_amount:'')
      else if HasPrefix payload ''edit_reason:''
        then cbEditReason E w chatID messageID (TrimPrefix payload ''edit_reason:'')
      else if HasPrefix payload ''subtract_from_debt:''
        then cbSubtractFromDebt E w chatID messageID (TrimPrefix payload ''subtract_from_debt:'')
      else if payload = ''add_debt_to_existing''
        then cbAddDebtToExisting w chatID messageID
      else if payload = ''delete_debtor''
        then cbDeleteDebtor w chatID messageID
      else if payload = ''confirm_delete_debtor''
        then cbConfirmDeleteDebtor w chatID messageID
      else if payload = ''set_payment_date''
        then cbAsk w chatID messageID StateSettingPaymentDate AskPaymentDate
      else if payload = ''set_payment_amount''
        then cbAsk w chatID messageID StateSettingPaymentAmount AskPaymentAmount
      else if payload = ''clear_payment_date''
        then cbClearPaymentDate w chatID messageID
      else if payload = ''clear_payment_amount''
        then cbClearPaymentAmount w chatID messageID
      else if payload = ''edit_payment_date''
        then cbAsk w chatID messageID StateEditingPaymentDate AskNewPaymentDate
      else if payload = ''edit_payment_amount''
        then cbAsk w chatID messageID StateEditingPaymentAmount AskNewPaymentAmount
      else (w, []))"

section \<open>The update loop\<close>

text \<open>
  \<^verbatim>\<open>main\<close> takes the updates one at a time: a command (by its name), any other
  message, or a button press with the id of the message that carries the button.
\<close>

datatype update =
    Command int string
  | Message int string
  | CallbackQuery int int string

definition dispatch :: "env \<Rightarrow> world \<Rightarrow> update \<Rightarrow> world \<times> out list" where
  "dispatch E w u =
     (case u of
        Command chatID name \<Rightarrow>
          if name = ''start'' then handleStartCommand w chatID
          else if name = ''add'' then handleAddCommand w chatID
          else if name = ''debts'' then handleDebtsCommand w chatID
          else if name = ''help'' then handleHelpCommand w chatID
          else if name = ''exportcsv'' then handleExportCSVCommand w chatID
          else (clearUserState w chatID, [Send chatID (Notice UnknownCommand)])
      | Message chatID txt \<Rightarrow> handleMessage E w chatID txt
      | CallbackQuery chatID messageID payload \<Rightarrow> handleCallbackQuery E w chatID messageID payload)"

text \<open>The loop over the updates received, with everything sent on the way.\<close>

fun run :: "env \<Rightarrow> world \<Rightarrow> update list \<Rightarrow> world \<times> out list" where
  "run E w [] = (w, [])"
| "run E w (u # us) =
     (case dispatch E w u of
        (w1, os1) \<Rightarrow> (case run E w1 us of (w2, os2) \<Rightarrow> (w2, os1 @ os2)))"

section \<open>A sample of the library functions\<close>

text \<open>
  To run the handlers on concrete updates, \<open>sampleEnv\<close> gives the library functions
  on the inputs used below, where they agree with Go: \<^verbatim>\<open>Atoi\<close> on unsigned decimal
  numerals (a non-empty run of digits, of a value that fits 64 bits);
  \<^verbatim>\<open>ParseFloat\<close> on the texts \<^verbatim>\<open>NaN\<close> and \<^verbatim>\<open>Inf\<close> and on unsigned decimal
  numerals with an optional fraction (digits, or digits, a point and digits), whose value
  is rounded to \<^verbatim>\<open>float64\<close>; \<^verbatim>\<open>time.Parse\<close> on the layouts \<^verbatim>\<open>02.01.2006\<close> and
  \<^verbatim>\<open>02-01-2006\<close> with a text of two digits, two digits and four digits that names a
  month from 1 to 12 and a day from 1 to 28. Every other input is an error here.

  \<open>sampleRound64\<close> rounds a rational to the nearest \<^verbatim>\<open>float64\<close>, ties to the even
  significand: 53 bits of significand, exponents from -1022 (below which the spacing of
  the values stays \<open>2 ^ -1074\<close>) to 1023, and an infinity when the rounded value would
  reach \<open>2 ^ 1024\<close>.
\<close>

definition pow2 :: "int \<Rightarrow> rat" where
  "pow2 e = (if 0 \<le> e then 2 ^ nat e else 1 / 2 ^ nat (- e))"

definition roundHalfEven :: "rat \<Rightarrow> int" where
  "roundHalfEven x =
     (let f = \<lfloor>x\<rfloor>; d = x - of_int f
      in if d < 1 / 2 then f else if 1 / 2 < d then f + 1 else if even f then f else f + 1)"

text \<open>For \<open>0 < q\<close>, the exponent \<open>e\<close> with \<open>2 ^ e \<le> q < 2 ^ (e + 1)\<close>.\<close>

definition floorLog2 :: "rat \<Rightarrow> int" where
  "floorLog2 q =
     (case quotient_of q of
        (p, d) \<Rightarrow> (let e = bitlen p - bitlen d in if pow2 e \<le> q then e else e - 1))"

definition sampleRound64 :: "rat \<Rightarrow> float64" where
  "sampleRound64 q =
     (if q = 0 then Fin 0
      else let m = \<bar>q\<bar>;
               e = max (floorLog2 m) (- 1022);
               n = roundHalfEven (m / pow2 (e - 52))
           in if 1023 < e \<or> (e = 1023 \<and> n = 2 ^ 53) then (if 0 < q then PInf else NInf)
              else Fin (if 0 < q then of_int n * pow2 (e - 52) else - (of_int n * pow2 (e - 52))))"

definition digitVal :: "char \<Rightarrow> nat option" where
  "digitVal c =
     map_of [(CHR ''0'', 0), (CHR ''1'', 1), (CHR ''2'', 2), (CHR ''3'', 3), (CHR ''4'', 4),
             (CHR ''5'', 5), (CHR ''6'', 6), (CHR ''7'', 7), (CHR ''8'', 8), (CHR ''9'', 9)] c"

fun digitsVal :: "string \<Rightarrow> nat \<Rightarrow> nat option" where
  "digitsVal [] acc = Some acc"
| "digitsVal (c # cs) acc =
     (case digitVal c of None \<Rightarrow> None | Some d \<Rightarrow> digitsVal cs (10 * acc + d))"

definition sampleAtoi :: "string \<Rightarrow> int \<times> error option" where
  "sampleAtoi str =
     (if str = [] then (0, Some ErrSyntax)
      else case digitsVal str 0 of
             None \<Rightarrow> (0, Some ErrSyntax)
           | Some n \<Rightarrow>
               if int n \<le> 9223372036854775807 then (int n, None)
               else (9223372036854775807, Some ErrRange))"

text \<open>A decimal numeral too large for \<^verbatim>\<open>float64\<close> is a range error.\<close>

definition sampleDecimal :: "rat \<Rightarrow> error + amount" where
  "sampleDecimal q = (case sampleRound64 q of PInf \<Rightarrow> Inl ErrRange | v \<Rightarrow> Inr v)"

definition sampleParseFloat :: "string \<Rightarrow> error + amount" where
  "sampleParseFloat str =
     (if str = ''NaN'' then Inr NaN
      else if str = ''Inf'' then Inr PInf
      else let ip = takeWhile (\<lambda>c. c \<noteq> CHR ''.'') str;
               rest = dropWhile (\<lambda>c. c \<noteq> CHR ''.'') str
           in if ip = [] then Inl ErrSyntax
              else case digitsVal ip 0 of
                     None \<Rightarrow> Inl ErrSyntax
                   | Some n \<Rightarrow>
                       if rest = [] then sampleDecimal (of_nat n)
                       else if tl rest = [] then Inl ErrSyntax
                       else case digitsVal (tl rest) 0 of
                              None \<Rightarrow> Inl ErrSyntax
                            | Some f \<Rightarrow>
                                sampleDecimal (of_nat n + of_nat f / 10 ^ length (tl rest)))"

definition sampleDate :: "char \<Rightarrow> string \<Rightarrow> error + Time" where
  "sampleDate sep str =
     (case str of
        [d1, d2, s1, m1, m2, s2, y1, y2, y3, y4] \<Rightarrow>
          if s1 = sep \<and> s2 = sep
          then (case (digitsVal [d1, d2] 0, digitsVal [m1, m2] 0, digitsVal [y1, y2, y3, y4] 0) of
                  (Some d, Some m, Some y) \<Rightarrow>
                    if 1 \<le> m \<and> m \<le> 12 \<and> 1 \<le> d \<and> d \<le> 28
                    then Inr (int y, int m, int d) else Inl ErrParse
                | _ \<Rightarrow> Inl ErrParse)
          else Inl ErrParse
      | _ \<Rightarrow> Inl ErrParse)"

definition sampleTimeParse :: "string \<Rightarrow> string \<Rightarrow> error + Time" where
  "sampleTimeParse layout str =
     (if layout = ''02.01.2006'' then sampleDate (CHR ''.'') str
      else if layout = ''02-01-2006'' then sampleDate (CHR ''-'') str
      else Inl ErrParse)"

definition sampleEnv :: env where
  "sampleEnv = \<lparr>ParseFloat = sampleParseFloat, Atoi = sampleAtoi, timeParse = sampleTimeParse,
     round64 = sampleRound64\<rparr>"

section \<open>Sample data\<close>

text \<open>
  The database after chat 1 has sent \<^verbatim>\<open>/add\<close>, \<^verbatim>\<open>Alex\<close>, \<^verbatim>\<open>lunch\<close> and
  \<^verbatim>\<open>100\<close> to a fresh bot (\<open>alexUpdates\<close>, \<open>alexDB\<close>), and the same with the debt
  closed again (\<open>settledDB\<close>).
\<close>

definition alex :: Debtor where
  "alex = \<lparr>debtor_ID = 1, debtor_Name = ''Alex'', debtor_ChatID = 1,
     debtor_PaymentDate = None, debtor_PaymentAmount = None\<rparr>"

definition lunch :: Debt where
  "lunch = \<lparr>debt_ID = 1, debt_DebtorID = 1, debt_Amount = Fin 100, debt_Reason = ''lunch''\<rparr>"

definition alexDB :: db where
  "alexDB = \<lparr>debtors = [alex], debts = [lunch], debtors_seq = 1, debts_seq = 1,
     foreign_keys = False\<rparr>"

definition settledDB :: db where
  "settledDB = \<lparr>debtors = [alex], debts = [], debtors_seq = 1, debts_seq = 1,
     foreign_keys = False\<rparr>"

definition alexUpdates :: "update list" where
  "alexUpdates = [Command 1 ''add'', Message 1 ''Alex'', Message 1 ''lunch'', Message 1 ''100'']"

text \<open>Chat 1 after it has listed its debtors, selected Alex, pressed the edit button of
  the debt and then the subtract button.\<close>

definition subtractUpdates :: "update list" where
  "subtractUpdates = [Command 1 ''debts'', CallbackQuery 1 10 ''select_debtor:1'',
     CallbackQuery 1 11 ''edit_debt:1'', CallbackQuery 1 11 ''subtract_from_debt:1'']"

definition subtractWorld :: world where
  "subtractWorld = \<lparr>DB = alexDB, userStates = [1 \<mapsto> StateSubtractingFromDebt],
     currentDebtors = [1 \<mapsto> alex], selectedDebts = [1 \<mapsto> lunch]\<rparr>"

text \<open>Chat 1 after it has selected Alex and pressed the button that sets a payment date.\<close>

definition dateUpdates :: "update list" where
  "dateUpdates = [Command 1 ''debts'', CallbackQuery 1 10 ''select_debtor:1'',
     CallbackQuery 1 11 ''set_payment_date'']"

definition dateWorld :: world where
  "dateWorld = \<lparr>DB = alexDB, userStates = [1 \<mapsto> StateSettingPaymentDate],
     currentDebtors = [1 \<mapsto> alex], selectedDebts = Map.empty\<rparr>"

text \<open>Chat 1 after it has selected Alex, set the payment amount 50 and pressed the button
  that edits the payment amount.\<close>

definition paidAlex :: Debtor where
  "paidAlex = alex\<lparr>debtor_PaymentAmount := Some (Fin 50)\<rparr>"

definition paidDB :: db where
  "paidDB = alexDB\<lparr>debtors := [paidAlex]\<rparr>"

definition payUpdates :: "update list" where
  "payUpdates = [Command 1 ''debts'', CallbackQuery 1 10 ''select_debtor:1'',
     CallbackQuery 1 11 ''set_payment_amount'', Message 1 ''50'',
     CallbackQuery 1 12 ''edit_payment_amount'']"

definition payWorld :: world where
  "payWorld = \<lparr>DB = paidDB, userStates = [1 \<mapsto> StateEditingPaymentAmount],
     currentDebtors = [1 \<mapsto> paidAlex], selectedDebts = Map.empty\<rparr>"

text \<open>The same as \<open>subtractWorld\<close> when chat 1 answered the amount prompt of
  \<^verbatim>\<open>/add\<close> with \<^verbatim>\<open>Inf\<close>: the debt is infinite.\<close>

definition infLunch :: Debt where
  "infLunch = lunch\<lparr>debt_Amount := PInf\<rparr>"

definition infUpdates :: "update list" where
  "infUpdates = [Command 1 ''add'', Message 1 ''Alex'', Message 1 ''lunch'', Message 1 ''Inf'',
     Command 1 ''debts'', CallbackQuery 1 10 ''select_debtor:1'',
     CallbackQuery 1 11 ''edit_debt:1'', CallbackQuery 1 11 ''subtract_from_debt:1'']"

definition infWorld :: world where
  "infWorld = \<lparr>DB = alexDB\<lparr>debts := [infLunch]\<rparr>,
     userStates = [1 \<mapsto> StateSubtractingFromDebt],
     currentDebtors = [1 \<mapsto> alex], selectedDebts = [1 \<mapsto> infLunch]\<rparr>"

text \<open>No debt refers to a debtor that is not there.\<close>

definition referentialIntegrity :: "db \<Rightarrow> bool" where
  "referentialIntegrity s =
     list_all (\<lambda>d. list_ex (\<lambda>r. debtor_ID r = debt_DebtorID d) (debtors s)) (debts s)"

text \<open>A connection on which foreign keys are enforced, with a store that satisfies
  them; and \<open>alexDB\<close> on such a connection.\<close>

definition enforced :: "db \<Rightarrow> bool" where
  "enforced s = (foreign_keys s \<and> referentialIntegrity s)"

definition enforcedAlexDB :: db where
  "enforcedAlexDB = alexDB\<lparr>foreign_keys := True\<rparr>"

text \<open>The chat an update belongs to, and two worlds that agree on the state, current
  debtor and selected debt of every chat but \<open>c\<close>.\<close>

definition chatOf :: "update \<Rightarrow> int" where
  "chatOf u = (case u of Command c n \<Rightarrow> c | Message c t \<Rightarrow> c | CallbackQuery c m p \<Rightarrow> c)"

definition othersSame :: "int \<Rightarrow> world \<Rightarrow> world \<Rightarrow> bool" where
  "othersSame c w w' =
     (\<forall>c'. c' \<noteq> c \<longrightarrow> userStates w' c' = userStates w c' \<and>
        currentDebtors w' c' = currentDebtors w c' \<and> selectedDebts w' c' = selectedDebts w c')"

text \<open>\<open>subtractWorld\<close> with a second chat that has been asked for a debtor's name.\<close>

definition twoChatWorld :: world where
  "twoChatWorld = subtractWorld\<lparr>userStates := (userStates subtractWorld)(2 \<mapsto> StateAddingDebtorName)\<rparr>"

section \<open>Facts about the store and the conversation state\<close>

lemmas store_defs =
  addDebtor_def getDebtorByName_def getDebtorByID_def addDebt_def listDebtors_def listDebts_def
  getDebtByID_def updateDebtAmount_def updateDebtReason_def closeDebt_def deleteDebtor_def
  updateDebtorPaymentDate_def updateDebtorPaymentAmount_def clearDebtorPaymentDate_def
  clearDebtorPaymentAmount_def queryRow_def next_rowid_def

lemmas conv_defs =
  stateOf_def currentDebtor_def selectedDebt_def clearUserState_def setState_def
  setCurrentDebtor_def setSelectedDebt_def initWorld_def zeroDebt_def zeroDebtor_def

lemmas message_defs =
  handleMessage_def onAddingDebtorName_def afterAddDebtor_def askReason_def
  onAddingDebtReason_def onAddingDebtAmount_def onEditingAmount_def onEditingReason_def
  onSubtractingFromDebt_def onSettingPaymentDate_def onSettingPaymentAmount_def
  onEditingPaymentDate_def onEditingPaymentAmount_def validAmount_def showThenClear_def
  showDebtorDetails_def

lemmas callback_defs =
  cbSelectDebtor_def cbCloseDebt_def cbConfirmClose_def cbCancelOperation_def cbEditDebt_def
  cbEditAmount_def cbEditReason_def cbSubtractFromDebt_def cbAddDebtToExisting_def
  cbDeleteDebtor_def cbConfirmDeleteDebtor_def cbAsk_def cbClearPaymentDate_def
  cbClearPaymentAmount_def showDebtorDetails_def

lemmas command_defs =
  handleStartCommand_def handleAddCommand_def handleDebtsCommand_def handleHelpCommand_def
  handleExportCSVCommand_def generateCSV_def

text \<open>The sample functions at the inputs used below.\<close>

lemma sample_parse:
  "sampleParseFloat ''100'' = Inr (Fin 100)"
  "sampleParseFloat ''50'' = Inr (Fin 50)"
  "sampleParseFloat ''30'' = Inr (Fin 30)"
  "sampleParseFloat ''150'' = Inr (Fin 150)"
  "sampleParseFloat ''0'' = Inr (Fin 0)"
  "sampleParseFloat ''0.1'' = Inr (Fin (3602879701896397 / 36028797018963968))"
  "sampleParseFloat ''abc'' = Inl ErrSyntax"
  "sampleParseFloat ''NaN'' = Inr NaN"
  "sampleParseFloat ''Inf'' = Inr PInf"
  by code_simp+


lemmas sample_defs =
  sampleEnv_def sampleAtoi_def sample_parse sampleTimeParse_def sampleDate_def
  digitVal_def alex_def lunch_def alexDB_def settledDB_def initDB_def

lemma queryRow_Inr: "queryRow p rows = Inr r \<Longrightarrow> p r \<and> r \<in> set rows"
  by (auto simp: queryRow_def find_Some_iff split: option.splits)

lemma queryRow_Inl: "queryRow p rows = Inl e \<Longrightarrow> e = ErrNoRows \<and> \<not> (\<exists>r \<in> set rows. p r)"
  by (auto simp: queryRow_def find_None_iff split: option.splits)

lemma queryRow_absent: "\<not> (\<exists>r \<in> set rows. p r) \<Longrightarrow> queryRow p rows = Inl ErrNoRows"
  by (auto simp: queryRow_def find_None_iff split: option.splits)



lemma DB_clearUserState [simp]: "DB (clearUserState w c) = DB w"
  by (simp add: clearUserState_def)

lemma stateOf_clearUserState [simp]: "stateOf (clearUserState w c) c = StateIdle"
  by (simp add: clearUserState_def stateOf_def)

lemma maps_clearUserState [simp]:
  "userStates (clearUserState w c) c = None"
  "currentDebtors (clearUserState w c) c = None"
  "selectedDebts (clearUserState w c) c = None"
  by (simp_all add: clearUserState_def)

lemma DB_showDebtorDetails [simp]: "DB (fst (showDebtorDetails w c i)) = DB w"
  by (simp add: showDebtorDetails_def setCurrentDebtor_def listDebts_def split: sum.splits)

lemma fst_showThenClear:
  "fst (showThenClear w c i r) = clearUserState (fst (showDebtorDetails w c i)) c"
  by (simp add: showThenClear_def split: prod.splits)

text \<open>The dispatch of the callback handler on the payloads the bot puts on its buttons.\<close>

lemma cb_select_debtor:
  "handleCallbackQuery E w c m (''select_debtor:'' @ rest) = cbSelectDebtor E w c rest"
  by (simp add: handleCallbackQuery_def HasPrefix_def TrimPrefix_def)

lemma cb_close_debt:
  "handleCallbackQuery E w c m (''close_debt:'' @ rest) = cbCloseDebt E w c m rest"
  by (simp add: handleCallbackQuery_def HasPrefix_def TrimPrefix_def)

lemma cb_confirm_close:
  "handleCallbackQuery E w c m (''confirm_close:'' @ rest) = cbConfirmClose E w c m rest"
  by (simp add: handleCallbackQuery_def HasPrefix_def TrimPrefix_def)

lemma cb_edit_debt:
  "handleCallbackQuery E w c m (''edit_debt:'' @ rest) = cbEditDebt E w c m rest"
  by (simp add: handleCallbackQuery_def HasPrefix_def TrimPrefix_def)

lemma cb_edit_amount:
  "handleCallbackQuery E w c m (''edit_amount:'' @ rest) = cbEditAmount E w c m rest"
  by (simp add: handleCallbackQuery_def HasPrefix_def TrimPrefix_def)

lemma cb_edit_reason:
  "handleCallbackQuery E w c m (''edit_reason:'' @ rest) = cbEditReason E w c m rest"
  by (simp add: handleCallbackQuery_def HasPrefix_def TrimPrefix_def)

lemma cb_subtract_from_debt:
  "handleCallbackQuery E w c m (''subtract_from_debt:'' @ rest) = cbSubtractFromDebt E w c m rest"
  by (simp add: handleCallbackQuery_def HasPrefix_def TrimPrefix_def)

lemma cb_fixed:
  "handleCallbackQuery E w c m ''cancel_operation'' = cbCancelOperation w c m"
  "handleCallbackQuery E w c m ''add_debt_to_existing'' = cbAddDebtToExisting w c m"
  "handleCallbackQuery E w c m ''delete_debtor'' = cbDeleteDebtor w c m"
  "handleCallbackQuery E w c m ''confirm_delete_debtor'' = cbConfirmDeleteDebtor w c m"
  "handleCallbackQuery E w c m ''set_payment_date'' =
     cbAsk w c m StateSettingPaymentDate AskPaymentDate"
  "handleCallbackQuery E w c m ''set_payment_amount'' =
     cbAsk w c m StateSettingPaymentAmount AskPaymentAmount"
  "handleCallbackQuery E w c m ''clear_payment_date'' = cbClearPaymentDate w c m"
  "handleCallbackQuery E w c m ''clear_payment_amount'' = cbClearPaymentAmount w c m"
  "handleCallbackQuery E w c m ''edit_payment_date'' =
     cbAsk w c m StateEditingPaymentDate AskNewPaymentDate"
  "handleCallbackQuery E w c m ''edit_payment_amount'' =
     cbAsk w c m StateEditingPaymentAmount AskNewPaymentAmount"
  by (simp_all add: handleCallbackQuery_def HasPrefix_def TrimPrefix_def)

lemma dispatch_simps:
  "dispatch E w (Command c ''start'') = handleStartCommand w c"
  "dispatch E w (Command c ''add'') = handleAddCommand w c"
  "dispatch E w (Command c ''debts'') = handleDebtsCommand w c"
  "dispatch E w (Command c ''help'') = handleHelpCommand w c"
  "dispatch E w (Message c t) = handleMessage E w c t"
  "dispatch E w (CallbackQuery c m p) = handleCallbackQuery E w c m p"
  by (simp_all add: dispatch_def)

text \<open>The sample worlds are worlds the program reaches from a fresh database.\<close>

lemma run_append:
  "run E w (us @ vs) =
     (case run E w us of (w1, os1) \<Rightarrow> (case run E w1 vs of (w2, os2) \<Rightarrow> (w2, os1 @ os2)))"
  by (induction us arbitrary: w) (auto split: prod.splits)

lemma fst_run_append: "fst (run E w (us @ vs)) = fst (run E (fst (run E w us)) vs)"
  by (simp add: run_append split: prod.splits)

lemma alexDB_reached: "fst (run sampleEnv (initWorld initDB) alexUpdates) = initWorld alexDB"
  by (simp add: alexUpdates_def dispatch_simps command_defs message_defs conv_defs store_defs
        sample_defs)

lemma subtractWorld_reached:
  "fst (run sampleEnv (initWorld alexDB) subtractUpdates) = subtractWorld"
  by (simp add: subtractUpdates_def subtractWorld_def dispatch_simps cb_select_debtor
        cb_edit_debt cb_subtract_from_debt [of _ _ _ _ "''1''", simplified]
        cb_edit_debt [of _ _ _ _ "''1''", simplified]
        cb_select_debtor [of _ _ _ _ "''1''", simplified]
        command_defs callback_defs conv_defs store_defs sample_defs)

lemma infWorld_reached:
  "fst (run sampleEnv (initWorld initDB) infUpdates) = infWorld"
  by (simp add: infUpdates_def infWorld_def infLunch_def dispatch_simps cb_select_debtor
        cb_edit_debt cb_subtract_from_debt [of _ _ _ _ "''1''", simplified]
        cb_edit_debt [of _ _ _ _ "''1''", simplified]
        cb_select_debtor [of _ _ _ _ "''1''", simplified]
        command_defs message_defs callback_defs conv_defs store_defs sample_defs)

lemma dateWorld_reached:
  "fst (run sampleEnv (initWorld alexDB) dateUpdates) = dateWorld"
  by (simp add: dateUpdates_def dateWorld_def dispatch_simps cb_fixed
        cb_select_debtor [of _ _ _ _ "''1''", simplified]
        command_defs callback_defs conv_defs store_defs sample_defs)


section \<open>Subtracting from a debt\<close>

text \<open>Facts about the comparisons: an amount above zero is not NaN and does not compare
  equal to zero, and an amount that is at least an amount above zero is above zero.\<close>

lemma flt_zero_cases: "flt (Fin 0) x \<Longrightarrow> x = PInf \<or> (\<exists>q. x = Fin q \<and> 0 < q)"
  by (cases x) auto

lemma flt_zero_not_fle: "flt (Fin 0) x \<Longrightarrow> \<not> fle x (Fin 0)"
  by (cases x) auto





lemma subtractWorld_facts:
  "stateOf subtractWorld 1 = StateSubtractingFromDebt"
  "selectedDebts subtractWorld 1 = Some lunch"
  "selectedDebt subtractWorld 1 = lunch"
  "getDebtByID (DB subtractWorld) (debt_ID lunch) = Inr lunch"
  "debt_ID lunch = 1"
  "debt_Amount lunch = Fin 100"
  by (simp_all add: subtractWorld_def stateOf_def selectedDebt_def alexDB_def getDebtByID_def
        queryRow_def lunch_def)



text \<open>
  C4. In state \<open>StateSubtractingFromDebt\<close>, a text that parses to an amount greater
  than the amount of the chat's selected debt (\<^verbatim>\<open>amountToSubtract > debt.Amount\<close>)
  changes nothing: the store, the state of every chat and the selected debt are as
  before, and the only thing done is to send the chat one corrective message (that the
  amount must not exceed the debt; for an amount with \<^verbatim>\<open>amount <= 0\<close>, that it must be
  a positive number).
\<close>

theorem subtract_too_large:
  assumes st: "stateOf w chatID = StateSubtractingFromDebt"
    and parse: "ParseFloat E txt = Inr a"
    and gt: "flt (debt_Amount (selectedDebt w chatID)) a"
  shows "handleMessage E w chatID txt =
           (w, [Send chatID (Corrective (if fle a (Fin 0) then BadSubtractAmount
                                         else SubtractTooLarge))])"
  using assms
  by (simp add: handleMessage_def onSubtractingFromDebt_def validAmount_def Let_def)

theorem subtract_too_large_witness:
  "stateOf subtractWorld 1 = StateSubtractingFromDebt \<and>
   ParseFloat sampleEnv ''150'' = Inr (Fin 150) \<and>
   flt (debt_Amount (selectedDebt subtractWorld 1)) (Fin 150) \<and>
   handleMessage sampleEnv subtractWorld 1 ''150''
     = (subtractWorld, [Send 1 (Corrective SubtractTooLarge)])"
proof -
  have st: "stateOf subtractWorld 1 = StateSubtractingFromDebt"
    by (rule subtractWorld_facts)
  have p: "ParseFloat sampleEnv ''150'' = Inr (Fin 150)"
    by (simp add: sampleEnv_def sample_parse)
  have gt: "flt (debt_Amount (selectedDebt subtractWorld 1)) (Fin 150)"
    by (simp add: subtractWorld_facts)
  show ?thesis
    using subtract_too_large [OF st p gt] st p gt by simp
qed

section \<open>Input that fails validation\<close>

text \<open>The loop over the layouts: it yields a time exactly when some layout parses the
  text, and then the time of the first layout that does.\<close>

lemma tryFormats_first:
  "(tryFormats E fs txt (Inl e0) = Inr t) =
     (\<exists>pre f post. fs = pre @ f # post \<and> (\<forall>g \<in> set pre. isl (timeParse E g txt)) \<and>
        timeParse E f txt = Inr t)"
proof (induction fs arbitrary: e0)
  case Nil
  then show ?case by simp
next
  case (Cons g gs)
  show ?case
  proof (cases "timeParse E g txt")
    case (Inl e)
    have "(\<exists>pre f post. g # gs = pre @ f # post \<and> (\<forall>g \<in> set pre. isl (timeParse E g txt)) \<and>
        timeParse E f txt = Inr t) =
      (\<exists>pre f post. gs = pre @ f # post \<and> (\<forall>g \<in> set pre. isl (timeParse E g txt)) \<and>
        timeParse E f txt = Inr t)" (is "?L = ?R")
    proof
      assume ?L
      then obtain pre f post where a: "g # gs = pre @ f # post"
        "\<forall>g \<in> set pre. isl (timeParse E g txt)" "timeParse E f txt = Inr t" by blast
      show ?R
      proof (cases pre)
        case Nil
        with a Inl show ?thesis by simp
      next
        case (Cons p ps)
        with a have "gs = ps @ f # post" "\<forall>g \<in> set ps. isl (timeParse E g txt)" by simp_all
        with a(3) show ?thesis by blast
      qed
    next
      assume ?R
      then obtain pre f post where a: "gs = pre @ f # post"
        "\<forall>g \<in> set pre. isl (timeParse E g txt)" "timeParse E f txt = Inr t" by blast
      then have "g # gs = (g # pre) @ f # post" "\<forall>x \<in> set (g # pre). isl (timeParse E x txt)"
        using Inl by simp_all
      with a(3) show ?L by blast
    qed
    with Inl Cons.IH [of e] show ?thesis by simp
  next
    case (Inr t')
    have "(\<exists>pre f post. g # gs = pre @ f # post \<and> (\<forall>g \<in> set pre. isl (timeParse E g txt)) \<and>
        timeParse E f txt = Inr t) = (t' = t)" (is "?L = _")
    proof
      assume ?L
      then obtain pre f post where a: "g # gs = pre @ f # post"
        "\<forall>g \<in> set pre. isl (timeParse E g txt)" "timeParse E f txt = Inr t" by blast
      show "t' = t"
      proof (cases pre)
        case Nil
        with a Inr show ?thesis by simp
      next
        case (Cons p ps)
        with a have "isl (timeParse E g txt)" by simp
        with Inr show ?thesis by simp
      qed
    next
      assume "t' = t"
      then have "g # gs = [] @ g # gs \<and> (\<forall>x \<in> set []. isl (timeParse E x txt)) \<and>
          timeParse E g txt = Inr t"
        using Inr by simp
      then show ?L by blast
    qed
    with Inr show ?thesis by simp
  qed
qed

lemma parseDate_first:
  "(parseDate E txt = Inr t) =
     (\<exists>pre f post. formats = pre @ f # post \<and> (\<forall>g \<in> set pre. isl (timeParse E g txt)) \<and>
        timeParse E f txt = Inr t)"
proof -
  have "parseDate E txt = tryFormats E formats txt (Inl ErrParse)"
    by (simp add: parseDate_def formats_def split: sum.splits)
  then show ?thesis by (simp add: tryFormats_first)
qed

lemma parseDate_some:
  "(\<exists>t. parseDate E txt = Inr t) = (\<exists>f \<in> set formats. \<exists>t. timeParse E f txt = Inr t)"
proof
  assume "\<exists>t. parseDate E txt = Inr t"
  then show "\<exists>f \<in> set formats. \<exists>t. timeParse E f txt = Inr t"
    unfolding parseDate_first by (metis in_set_conv_decomp)
next
  assume "\<exists>f \<in> set formats. \<exists>t. timeParse E f txt = Inr t"
  then have "\<exists>f \<in> set formats. \<not> isl (timeParse E f txt)" by force
  then obtain pre f post where d: "formats = pre @ f # post" "\<not> isl (timeParse E f txt)"
    "\<forall>g \<in> set pre. \<not> \<not> isl (timeParse E g txt)"
    using split_list_first_prop [of formats "\<lambda>f. \<not> isl (timeParse E f txt)"] by blast
  from d(2) obtain t where "timeParse E f txt = Inr t" by (cases "timeParse E f txt") auto
  with d have "parseDate E txt = Inr t" unfolding parseDate_first by auto
  then show "\<exists>t. parseDate E txt = Inr t" by blast
qed

lemma parseDate_none:
  assumes "\<forall>f \<in> set formats. isl (timeParse E f txt)"
  shows "\<exists>e. parseDate E txt = Inl e"
proof (cases "parseDate E txt")
  case (Inl e)
  then show ?thesis by blast
next
  case (Inr t)
  then have "\<exists>f \<in> set formats. \<exists>t. timeParse E f txt = Inr t"
    using parseDate_some [of E "txt"] by blast
  with assms show ?thesis by auto
qed

text \<open>
  X5. In each of the five states that wait for an amount, a text that the parser rejects
  or whose value satisfies \<^verbatim>\<open>amount <= 0\<close>, and in each of the two states that
  wait for a date, a text that none of the layouts parses, changes nothing: the handler
  returns the world it was given (store, states, current debtors and selected debts of
  all chats) and sends the chat one corrective message, the one of its state.
\<close>

theorem refused_input_changes_nothing:
  assumes "(stateOf w chatID \<in> {StateAddingDebtAmount, StateEditingAmount, StateSubtractingFromDebt,
               StateSettingPaymentAmount, StateEditingPaymentAmount} \<and>
            (case ParseFloat E txt of Inl e \<Rightarrow> True | Inr a \<Rightarrow> fle a (Fin 0))) \<or>
           (stateOf w chatID \<in> {StateSettingPaymentDate, StateEditingPaymentDate} \<and>
            (\<forall>f \<in> set formats. isl (timeParse E f txt)))"
  shows "handleMessage E w chatID txt =
           (w, [Send chatID (Corrective
                  (case stateOf w chatID of
                     StateAddingDebtAmount \<Rightarrow> BadDebtAmount
                   | StateEditingAmount \<Rightarrow> BadAmount
                   | StateSubtractingFromDebt \<Rightarrow> BadSubtractAmount
                   | StateSettingPaymentDate \<Rightarrow> BadDateSet
                   | StateEditingPaymentDate \<Rightarrow> BadDateEdit
                   | _ \<Rightarrow> BadPaymentAmount))])"
  using assms
proof (elim disjE conjE)
  assume s: "stateOf w chatID \<in> {StateAddingDebtAmount, StateEditingAmount,
      StateSubtractingFromDebt, StateSettingPaymentAmount, StateEditingPaymentAmount}"
    and p: "case ParseFloat E txt of Inl e \<Rightarrow> True | Inr a \<Rightarrow> fle a (Fin 0)"
  from p have "validAmount E txt = None"
    by (auto simp: validAmount_def split: sum.splits)
  with s show ?thesis
    by (auto simp: handleMessage_def onAddingDebtAmount_def onEditingAmount_def
          onSubtractingFromDebt_def onSettingPaymentAmount_def onEditingPaymentAmount_def)
next
  assume s: "stateOf w chatID \<in> {StateSettingPaymentDate, StateEditingPaymentDate}"
    and p: "\<forall>f \<in> set formats. isl (timeParse E f txt)"
  from p obtain e where "parseDate E txt = Inl e"
    using parseDate_none by blast
  with s show ?thesis
    by (auto simp: handleMessage_def onSettingPaymentDate_def onEditingPaymentDate_def)
qed

text \<open>In \<open>subtractWorld\<close> the texts \<^verbatim>\<open>abc\<close> and \<^verbatim>\<open>0\<close> are refused, and in
  \<open>dateWorld\<close> the text \<^verbatim>\<open>tomorrow\<close>.\<close>

theorem refused_input_changes_nothing_witness:
  "stateOf subtractWorld 1 = StateSubtractingFromDebt \<and>
   ParseFloat sampleEnv ''abc'' = Inl ErrSyntax \<and>
   ParseFloat sampleEnv ''0'' = Inr (Fin 0) \<and>
   stateOf dateWorld 1 = StateSettingPaymentDate \<and>
   list_all (\<lambda>f. isl (timeParse sampleEnv f ''tomorrow'')) formats \<and>
   handleMessage sampleEnv subtractWorld 1 ''abc''
     = (subtractWorld, [Send 1 (Corrective BadSubtractAmount)]) \<and>
   handleMessage sampleEnv subtractWorld 1 ''0''
     = (subtractWorld, [Send 1 (Corrective BadSubtractAmount)]) \<and>
   handleMessage sampleEnv dateWorld 1 ''tomorrow''
     = (dateWorld, [Send 1 (Corrective BadDateSet)])"
proof -
  have st: "stateOf subtractWorld 1 = StateSubtractingFromDebt"
    by (rule subtractWorld_facts)
  have sd: "stateOf dateWorld 1 = StateSettingPaymentDate"
    by (simp add: dateWorld_def stateOf_def)
  have pa: "ParseFloat sampleEnv ''abc'' = Inl ErrSyntax"
    by (simp add: sampleEnv_def sample_parse)
  have p0: "ParseFloat sampleEnv ''0'' = Inr (Fin 0)"
    by (simp add: sampleEnv_def sample_parse)
  have pt: "list_all (\<lambda>f. isl (timeParse sampleEnv f ''tomorrow'')) formats"
    by (simp add: formats_def sampleEnv_def sampleTimeParse_def sampleDate_def)
  have pt': "\<forall>f \<in> set formats. isl (timeParse sampleEnv f ''tomorrow'')"
    using pt by (simp add: list_all_iff)
  show ?thesis
    using refused_input_changes_nothing [of subtractWorld 1 sampleEnv "''abc''"]
      refused_input_changes_nothing [of subtractWorld 1 sampleEnv "''0''"]
      refused_input_changes_nothing [of dateWorld 1 sampleEnv "''tomorrow''"]
      st sd pa p0 pt pt'
    by simp
qed

text \<open>The world \<open>payWorld\<close> is one the program reaches.\<close>

lemma payWorld_reached:
  "fst (run sampleEnv (initWorld alexDB) payUpdates) = payWorld"
  by (simp add: payUpdates_def payWorld_def paidDB_def paidAlex_def dispatch_simps cb_fixed
        cb_select_debtor [of _ _ _ _ "''1''", simplified]
        command_defs callback_defs message_defs conv_defs store_defs sample_defs)

text \<open>
  C8. The test \<^verbatim>\<open>err != nil || amount <= 0\<close> of the amount states does not refuse the
  text \<^verbatim>\<open>NaN\<close>: it parses without error, and NaN compares false with everything. In
  \<open>subtractWorld\<close>, where chat 1 is to subtract from its debt of 100, the text makes
  the update of the debt fail; the chat gets a failure message, no corrective prompt, and
  loses its state, its current debtor and its selected debt. In \<open>payWorld\<close>, where
  chat 1 is to edit the payment amount 50 of Alex, the text is written to the store:
  Alex has no payment amount afterwards, the chat is told the amount was updated and is
  idle.
\<close>

theorem nan_passes_validation:
  "ParseFloat sampleEnv ''NaN'' = Inr NaN \<and>
   fle NaN (Fin 0) = False \<and>
   stateOf subtractWorld 1 = StateSubtractingFromDebt \<and>
   handleMessage sampleEnv subtractWorld 1 ''NaN''
     = (clearUserState subtractWorld 1, [LogLine, Send 1 (Failure SubtractFailed)]) \<and>
   stateOf (clearUserState subtractWorld 1) 1 = StateIdle \<and>
   currentDebtors (clearUserState subtractWorld 1) 1 = None \<and>
   selectedDebts (clearUserState subtractWorld 1) 1 = None \<and>
   stateOf payWorld 1 = StateEditingPaymentAmount \<and>
   debtors (DB payWorld) = [alex\<lparr>debtor_PaymentAmount := Some (Fin 50)\<rparr>] \<and>
   debtors (DB (fst (handleMessage sampleEnv payWorld 1 ''NaN''))) = [alex] \<and>
   stateOf (fst (handleMessage sampleEnv payWorld 1 ''NaN'')) 1 = StateIdle \<and>
   hd (snd (handleMessage sampleEnv payWorld 1 ''NaN'')) = Send 1 (Notice PaymentAmountUpdated)"
proof -
  have p: "ParseFloat sampleEnv ''NaN'' = Inr NaN"
    by (simp add: sampleEnv_def sample_parse)
  have v: "validAmount sampleEnv ''NaN'' = Some NaN"
    using p by (simp add: validAmount_def)
  have a: "handleMessage sampleEnv subtractWorld 1 ''NaN''
     = (clearUserState subtractWorld 1, [LogLine, Send 1 (Failure SubtractFailed)])"
    using v
    by (simp add: handleMessage_def onSubtractingFromDebt_def subtractWorld_facts
          updateDebtAmount_def Let_def)
       (simp add: subtractWorld_def alexDB_def lunch_def)
  have sp: "stateOf payWorld 1 = StateEditingPaymentAmount"
    by (simp add: payWorld_def stateOf_def)
  have b: "fst (handleMessage sampleEnv payWorld 1 ''NaN'')
             = clearUserState (payWorld\<lparr>DB := alexDB\<rparr>) 1"
    and c: "hd (snd (handleMessage sampleEnv payWorld 1 ''NaN'')) = Send 1 (Notice PaymentAmountUpdated)"
    using v sp
    by (simp_all add: handleMessage_def onEditingPaymentAmount_def payWorld_def paidDB_def
          paidAlex_def alexDB_def alex_def updateDebtorPaymentAmount_def currentDebtor_def
          zeroDebtor_def showDebtorDetails_def getDebtorByID_def queryRow_def
          clearUserState_def Let_def)
  have d: "debtors (DB payWorld) = [alex\<lparr>debtor_PaymentAmount := Some (Fin 50)\<rparr>]"
    by (simp add: payWorld_def paidDB_def paidAlex_def)
  show ?thesis
    using p a sp c d by (simp add: b subtractWorld_facts alexDB_def)
qed

section \<open>Payment dates\<close>

text \<open>
  C9. In the two states that wait for a payment date, the text is parsed with the
  layouts of \<open>formats\<close>. There are 8 of them: day, month and year, the separator being
  \<^verbatim>\<open>.\<close> or \<^verbatim>\<open>-\<close>, day and month written \<^verbatim>\<open>02\<close> and \<^verbatim>\<open>01\<close> or \<^verbatim>\<open>2\<close>
  and \<^verbatim>\<open>1\<close>, the year \<^verbatim>\<open>2006\<close> or \<^verbatim>\<open>06\<close>. They are tried in the order of the
  list: the result is a time exactly when some layout parses the text, and it is then
  the time given by the first layout that does. When there is such a time, the payment
  date of the chat's current debtor is set to it and the chat becomes idle; when there is
  none, the world is unchanged and the format hint of the state is sent.
\<close>

theorem payment_date_formats:
  assumes "stateOf w chatID = StateSettingPaymentDate \<or> stateOf w chatID = StateEditingPaymentDate"
  shows "length formats = 8 \<and>
         formats = concat (map (\<lambda>sep. concat (map (\<lambda>(d, m). map (\<lambda>y. d @ [sep] @ m @ [sep] @ y)
                                 [''2006'', ''06'']) [(''02'', ''01''), (''2'', ''1'')])) ''.-'') \<and>
         ((\<exists>t. parseDate E txt = Inr t) = (\<exists>f \<in> set formats. \<exists>t. timeParse E f txt = Inr t)) \<and>
         (\<forall>t. (parseDate E txt = Inr t) =
               (\<exists>pre f post. formats = pre @ f # post \<and>
                  (\<forall>g \<in> set pre. isl (timeParse E g txt)) \<and> timeParse E f txt = Inr t)) \<and>
         (case parseDate E txt of
            Inr t \<Rightarrow>
              updateDebtorPaymentDate (DB w) (debtor_ID (currentDebtor w chatID)) t
                = Inr (DB (fst (handleMessage E w chatID txt))) \<and>
              stateOf (fst (handleMessage E w chatID txt)) chatID = StateIdle
          | Inl e \<Rightarrow>
              handleMessage E w chatID txt =
                (w, [Send chatID (Corrective (if stateOf w chatID = StateSettingPaymentDate
                                              then BadDateSet else BadDateEdit))]))"
proof -
  have n: "length formats = 8"
    by (simp add: formats_def)
  have g: "formats = concat (map (\<lambda>sep. concat (map (\<lambda>(d, m). map (\<lambda>y. d @ [sep] @ m @ [sep] @ y)
                                 [''2006'', ''06'']) [(''02'', ''01''), (''2'', ''1'')])) ''.-'')"
    by (simp add: formats_def)
  have h: "case parseDate E txt of
            Inr t \<Rightarrow>
              updateDebtorPaymentDate (DB w) (debtor_ID (currentDebtor w chatID)) t
                = Inr (DB (fst (handleMessage E w chatID txt))) \<and>
              stateOf (fst (handleMessage E w chatID txt)) chatID = StateIdle
          | Inl e \<Rightarrow>
              handleMessage E w chatID txt =
                (w, [Send chatID (Corrective (if stateOf w chatID = StateSettingPaymentDate
                                              then BadDateSet else BadDateEdit))])"
    using assms
    by (auto simp: handleMessage_def onSettingPaymentDate_def onEditingPaymentDate_def
          updateDebtorPaymentDate_def fst_showThenClear Let_def split: sum.splits)
  show ?thesis
    using n g h parseDate_some [of E "txt"] parseDate_first [of E "txt"] by blast
qed

text \<open>In \<open>dateWorld\<close> the text \<^verbatim>\<open>28-02-2025\<close> is parsed by the fifth layout, after the
  first four have failed, and sets the payment date of Alex.\<close>

theorem payment_date_formats_witness:
  "stateOf dateWorld 1 = StateSettingPaymentDate \<and>
   isl (timeParse sampleEnv ''02.01.2006'' ''28-02-2025'') \<and>
   timeParse sampleEnv ''02-01-2006'' ''28-02-2025'' = Inr (2025, 2, 28) \<and>
   parseDate sampleEnv ''28-02-2025'' = Inr (2025, 2, 28) \<and>
   debtors (DB (fst (handleMessage sampleEnv dateWorld 1 ''28-02-2025'')))
     = [alex\<lparr>debtor_PaymentDate := Some (2025, 2, 28)\<rparr>] \<and>
   stateOf (fst (handleMessage sampleEnv dateWorld 1 ''28-02-2025'')) 1 = StateIdle"
proof -
  have sd: "stateOf dateWorld 1 = StateSettingPaymentDate"
    by (simp add: dateWorld_def stateOf_def)
  have p1: "isl (timeParse sampleEnv ''02.01.2006'' ''28-02-2025'')"
    by (simp add: sampleEnv_def sampleTimeParse_def sampleDate_def)
  have p5: "timeParse sampleEnv ''02-01-2006'' ''28-02-2025'' = Inr (2025, 2, 28)"
    by (simp add: sampleEnv_def sampleTimeParse_def sampleDate_def digitVal_def)
  have pd: "parseDate sampleEnv ''28-02-2025'' = Inr (2025, 2, 28)"
    by (simp add: parseDate_def formats_def sampleEnv_def sampleTimeParse_def sampleDate_def
          digitVal_def)
  have cd: "debtor_ID (currentDebtor dateWorld 1) = 1" "debtors (DB dateWorld) = [alex]"
      "debtor_ID alex = 1"
    by (simp_all add: dateWorld_def currentDebtor_def alex_def alexDB_def)
  have r: "updateDebtorPaymentDate (DB dateWorld) (debtor_ID (currentDebtor dateWorld 1)) (2025, 2, 28)
          = Inr (DB (fst (handleMessage sampleEnv dateWorld 1 ''28-02-2025''))) \<and>
        stateOf (fst (handleMessage sampleEnv dateWorld 1 ''28-02-2025'')) 1 = StateIdle"
    using payment_date_formats [of dateWorld 1 sampleEnv "''28-02-2025''"] sd pd by simp
  then have "DB (fst (handleMessage sampleEnv dateWorld 1 ''28-02-2025''))
               = (DB dateWorld)\<lparr>debtors := [alex\<lparr>debtor_PaymentDate := Some (2025, 2, 28)\<rparr>]\<rparr>"
    by (auto simp: updateDebtorPaymentDate_def cd)
  then have "debtors (DB (fst (handleMessage sampleEnv dateWorld 1 ''28-02-2025'')))
               = [alex\<lparr>debtor_PaymentDate := Some (2025, 2, 28)\<rparr>]"
    by simp
  with r have "debtors (DB (fst (handleMessage sampleEnv dateWorld 1 ''28-02-2025'')))
               = [alex\<lparr>debtor_PaymentDate := Some (2025, 2, 28)\<rparr>] \<and>
             stateOf (fst (handleMessage sampleEnv dateWorld 1 ''28-02-2025'')) 1 = StateIdle"
    by simp
  then show ?thesis
    using sd p1 p5 pd by simp
qed


section \<open>Deleting a debtor\<close>

text \<open>What \<^verbatim>\<open>deleteDebtor\<close> does to the debts depends on the connection only: with
  foreign keys enforced the debts of the debtor go with it, without they all stay.\<close>

lemma deleteDebtor_enforced:
  assumes "foreign_keys s" and "getDebtorByID s i = Inr d"
  shows "\<exists>s'. deleteDebtor s i = Inr s' \<and> getDebtorByID s' i = Inl ErrNoRows \<and>
           listDebts s' i = Inr []"
proof -
  from assms(2) have "\<exists>r \<in> set (debtors s). debtor_ID r = i"
    unfolding getDebtorByID_def by (auto dest: queryRow_Inr)
  moreover have "queryRow (\<lambda>r. debtor_ID r = i) (filter (\<lambda>r. debtor_ID r \<noteq> i) (debtors s))
                   = Inl ErrNoRows"
    by (rule queryRow_absent) simp
  ultimately show ?thesis
    using assms(1) by (simp add: deleteDebtor_def getDebtorByID_def listDebts_def)
qed

lemma deleteDebtor_not_enforced:
  assumes "\<not> foreign_keys s"
  shows "\<exists>s'. deleteDebtor s i = Inr s' \<and> getDebtorByID s' i = Inl ErrNoRows \<and>
           debts s' = debts s \<and> listDebts s' i = listDebts s i"
proof -
  have "queryRow (\<lambda>r. debtor_ID r = i) (filter (\<lambda>r. debtor_ID r \<noteq> i) (debtors s))
          = Inl ErrNoRows"
    by (rule queryRow_absent) simp
  then show ?thesis
    using assms by (simp add: deleteDebtor_def getDebtorByID_def listDebts_def)
qed

text \<open>
  C1. On the database the program opens, \<^verbatim>\<open>deleteDebtor\<close> removes the debtor and
  leaves its debts: in \<open>alexDB\<close>, where Alex (id 1) has one debt, deleting debtor 1
  succeeds, after which debtor 1 is not found but \<^verbatim>\<open>listDebts\<close> of 1 still returns
  the debt.
\<close>

theorem deleteDebtor_leaves_debts:
  "getDebtorByID alexDB 1 = Inr alex \<and>
   deleteDebtor alexDB 1 = Inr (alexDB\<lparr>debtors := []\<rparr>) \<and>
   getDebtorByID (alexDB\<lparr>debtors := []\<rparr>) 1 = Inl ErrNoRows \<and>
   listDebts (alexDB\<lparr>debtors := []\<rparr>) 1 = Inr [lunch\<lparr>debt_DebtorID := 0\<rparr>]"
  by (simp add: alexDB_def alex_def lunch_def deleteDebtor_def getDebtorByID_def listDebts_def
        queryRow_def)

text \<open>
  C2. Two runs from a fresh database that leave a debt without its debtor. In the first,
  chat 1 adds a debt of Alex, lists its debtors, selects Alex, presses the delete button
  and confirms: Alex is deleted and the debt stays. In the second, chat 1 adds the debt,
  selects Alex, sends \<^verbatim>\<open>/help\<close> (which clears the current debtor), then presses the
  add-debt button of the view it still has and enters a reason and an amount: the new
  debt has debtor id 0, which no debtor has.
\<close>

theorem orphan_debts_reached:
  "DB (fst (run sampleEnv (initWorld initDB)
     (alexUpdates @
      [Command 1 ''debts'', CallbackQuery 1 10 ''select_debtor:1'',
       CallbackQuery 1 11 ''delete_debtor'', CallbackQuery 1 11 ''confirm_delete_debtor''])))
     = alexDB\<lparr>debtors := []\<rparr> \<and>
   referentialIntegrity (alexDB\<lparr>debtors := []\<rparr>) = False \<and>
   DB (fst (run sampleEnv (initWorld initDB)
     (alexUpdates @
      [Command 1 ''debts'', CallbackQuery 1 10 ''select_debtor:1'', Command 1 ''help'',
       CallbackQuery 1 11 ''add_debt_to_existing'', Message 1 ''dinner'', Message 1 ''50''])))
     = alexDB\<lparr>debts := [lunch, \<lparr>debt_ID = 2, debt_DebtorID = 0, debt_Amount = Fin 50,
                                  debt_Reason = ''dinner''\<rparr>], debts_seq := 2\<rparr> \<and>
   referentialIntegrity
     (alexDB\<lparr>debts := [lunch, \<lparr>debt_ID = 2, debt_DebtorID = 0, debt_Amount = Fin 50,
                                  debt_Reason = ''dinner''\<rparr>], debts_seq := 2\<rparr>) = False"
proof -
  have a: "DB (fst (run sampleEnv (initWorld alexDB)
      [Command 1 ''debts'', CallbackQuery 1 10 ''select_debtor:1'',
       CallbackQuery 1 11 ''delete_debtor'', CallbackQuery 1 11 ''confirm_delete_debtor'']))
     = alexDB\<lparr>debtors := []\<rparr>"
    by (simp add: dispatch_simps cb_fixed cb_select_debtor [of _ _ _ _ "''1''", simplified]
          command_defs callback_defs conv_defs store_defs sample_defs)
  have b: "DB (fst (run sampleEnv (initWorld alexDB)
      [Command 1 ''debts'', CallbackQuery 1 10 ''select_debtor:1'', Command 1 ''help'',
       CallbackQuery 1 11 ''add_debt_to_existing'', Message 1 ''dinner'', Message 1 ''50'']))
     = alexDB\<lparr>debts := [lunch, \<lparr>debt_ID = 2, debt_DebtorID = 0, debt_Amount = Fin 50,
                                  debt_Reason = ''dinner''\<rparr>], debts_seq := 2\<rparr>"
    by (simp add: dispatch_simps cb_fixed cb_select_debtor [of _ _ _ _ "''1''", simplified]
          command_defs callback_defs message_defs conv_defs store_defs sample_defs)
  have c: "referentialIntegrity (alexDB\<lparr>debtors := []\<rparr>) = False"
    by (simp add: referentialIntegrity_def alexDB_def lunch_def)
  have d: "referentialIntegrity
     (alexDB\<lparr>debts := [lunch, \<lparr>debt_ID = 2, debt_DebtorID = 0, debt_Amount = Fin 50,
                                  debt_Reason = ''dinner''\<rparr>], debts_seq := 2\<rparr>) = False"
    by (simp add: referentialIntegrity_def alexDB_def lunch_def alex_def)
  show ?thesis
    using a b c d by (simp add: fst_run_append alexDB_reached)
qed


section \<open>Closing a debt\<close>

lemma length_filter_distinct:
  "distinct (map debt_ID xs) \<Longrightarrow> \<exists>r \<in> set xs. debt_ID r = i \<Longrightarrow>
   length (filter (\<lambda>r. debt_ID r \<noteq> i) xs) + 1 = length xs"
proof (induction xs)
  case Nil
  then show ?case by simp
next
  case (Cons x xs)
  show ?case
  proof (cases "debt_ID x = i")
    case True
    from Cons.prems(1) have "debt_ID x \<notin> debt_ID ` set xs" by simp
    with True have "\<forall>r \<in> set xs. debt_ID r \<noteq> i" by blast
    then have "filter (\<lambda>r. debt_ID r \<noteq> i) xs = xs" by (simp add: filter_id_conv)
    with True show ?thesis by simp
  next
    case False
    with Cons show ?thesis by auto
  qed
qed

text \<open>
  C6, as the code has it. \<^verbatim>\<open>closeDebt\<close> never fails: it removes the debts that have
  the id (exactly one when a debt has it, ids being distinct) and no other row, and a
  second call with the same id succeeds again and leaves the store as the first call left
  it. The caller, the \<^verbatim>\<open>confirm_close:\<close> button, deletes the debt whose id
  \<^verbatim>\<open>Atoi\<close> returns, first reports the debt as closed and ends with the chat idle,
  whether or not a debt had the id.
\<close>

theorem closeDebt_twice:
  "closeDebt s i = Inr (s\<lparr>debts := filter (\<lambda>r. debt_ID r \<noteq> i) (debts s)\<rparr>) \<and>
   closeDebt (s\<lparr>debts := filter (\<lambda>r. debt_ID r \<noteq> i) (debts s)\<rparr>) i
     = Inr (s\<lparr>debts := filter (\<lambda>r. debt_ID r \<noteq> i) (debts s)\<rparr>) \<and>
   getDebtByID (s\<lparr>debts := filter (\<lambda>r. debt_ID r \<noteq> i) (debts s)\<rparr>) i = Inl ErrNoRows \<and>
   (distinct (map debt_ID (debts s)) \<and> (\<exists>d. getDebtByID s i = Inr d) \<longrightarrow>
      length (filter (\<lambda>r. debt_ID r \<noteq> i) (debts s)) + 1 = length (debts s)) \<and>
   (fst (Atoi E str) = i \<and> DB w = s \<longrightarrow>
      DB (fst (handleCallbackQuery E w chatID messageID (''confirm_close:'' @ str)))
        = s\<lparr>debts := filter (\<lambda>r. debt_ID r \<noteq> i) (debts s)\<rparr> \<and>
      stateOf (fst (handleCallbackQuery E w chatID messageID (''confirm_close:'' @ str))) chatID
        = StateIdle \<and>
      hd (snd (handleCallbackQuery E w chatID messageID (''confirm_close:'' @ str)))
        = Edit chatID messageID (Notice DebtClosed))"
proof -
  have a: "getDebtByID (s\<lparr>debts := filter (\<lambda>r. debt_ID r \<noteq> i) (debts s)\<rparr>) i = Inl ErrNoRows"
    unfolding getDebtByID_def by (rule queryRow_absent) simp
  have b: "distinct (map debt_ID (debts s)) \<and> (\<exists>d. getDebtByID s i = Inr d) \<longrightarrow>
      length (filter (\<lambda>r. debt_ID r \<noteq> i) (debts s)) + 1 = length (debts s)"
  proof (intro impI, elim conjE exE)
    fix d
    assume "distinct (map debt_ID (debts s))" and "getDebtByID s i = Inr d"
    then show "length (filter (\<lambda>r. debt_ID r \<noteq> i) (debts s)) + 1 = length (debts s)"
      by (intro length_filter_distinct) (auto simp: getDebtByID_def dest: queryRow_Inr)
  qed
  have c: "fst (Atoi E str) = i \<and> DB w = s \<longrightarrow>
      DB (fst (handleCallbackQuery E w chatID messageID (''confirm_close:'' @ str)))
        = s\<lparr>debts := filter (\<lambda>r. debt_ID r \<noteq> i) (debts s)\<rparr> \<and>
      stateOf (fst (handleCallbackQuery E w chatID messageID (''confirm_close:'' @ str))) chatID
        = StateIdle \<and>
      hd (snd (handleCallbackQuery E w chatID messageID (''confirm_close:'' @ str)))
        = Edit chatID messageID (Notice DebtClosed)"
    unfolding cb_confirm_close
    by (simp add: cbConfirmClose_def closeDebt_def Let_def case_prod_beta)
  show ?thesis
    using a b c by (simp add: closeDebt_def)
qed

text \<open>Closing debt 1 of \<open>alexDB\<close>, by the button \<^verbatim>\<open>confirm_close:1\<close>.\<close>

theorem closeDebt_twice_witness:
  "distinct (map debt_ID (debts alexDB)) \<and> getDebtByID alexDB 1 = Inr lunch \<and>
   fst (Atoi sampleEnv ''1'') = 1 \<and>
   length (filter (\<lambda>r. debt_ID r \<noteq> 1) (debts alexDB)) + 1 = length (debts alexDB) \<and>
   DB (fst (handleCallbackQuery sampleEnv (initWorld alexDB) 1 11 ''confirm_close:1'')) = settledDB \<and>
   hd (snd (handleCallbackQuery sampleEnv (initWorld alexDB) 1 11 ''confirm_close:1''))
     = Edit 1 11 (Notice DebtClosed)"
proof -
  have d: "distinct (map debt_ID (debts alexDB))"
    by (simp add: alexDB_def)
  have g: "getDebtByID alexDB 1 = Inr lunch"
    by (simp add: alexDB_def getDebtByID_def queryRow_def lunch_def)
  have a: "fst (Atoi sampleEnv ''1'') = 1"
    by (simp add: sampleEnv_def sampleAtoi_def digitVal_def)
  have s: "alexDB\<lparr>debts := filter (\<lambda>r. debt_ID r \<noteq> 1) (debts alexDB)\<rparr> = settledDB"
    by (simp add: alexDB_def settledDB_def lunch_def)
  have w: "DB (initWorld alexDB) = alexDB"
    by (simp add: initWorld_def)
  show ?thesis
    using closeDebt_twice [of alexDB 1 sampleEnv "''1''" "initWorld alexDB" 1 11] d g a w
    by (simp add: s)
qed

text \<open>The claim as the specification states it fails: the second \<^verbatim>\<open>closeDebt\<close> of
  debt 1 finds no debt with the id and reports success, not an error.\<close>

theorem closeDebt_second_call_succeeds:
  "closeDebt alexDB 1 = Inr settledDB \<and>
   getDebtByID settledDB 1 = Inl ErrNoRows \<and>
   closeDebt settledDB 1 = Inr settledDB \<and>
   closeDebt settledDB 1 \<noteq> Inl ErrNoRows"
  by (simp add: alexDB_def settledDB_def lunch_def closeDebt_def getDebtByID_def queryRow_def)

section \<open>Creating a debtor twice\<close>

text \<open>
  C7. When the store has a debtor with the name in the chat, \<^verbatim>\<open>addDebtor\<close> of a
  debtor with that name and chat fails with "debtor already exists"; a failed call
  returns no new store, so the rows are as they were. The case of
  \<open>StateAddingDebtorName\<close> answers this error with the request for another name and
  leaves the world, and so the state, unchanged. A message with that name in that state
  does not change the store either: the handler looks the name up first and takes the
  debtor it finds.
\<close>

theorem duplicate_debtor_rejected:
  assumes "getDebtorByName s name chatID = Inr d"
  shows "(\<forall>x. debtor_Name x = name \<and> debtor_ChatID x = chatID \<longrightarrow>
            addDebtor s x = Inl ErrAlreadyExists) \<and>
         afterAddDebtor w chatID name (Inl ErrAlreadyExists)
           = (w, [Send chatID (Corrective (DebtorExists name))]) \<and>
         (DB w = s \<and> stateOf w chatID = StateAddingDebtorName \<longrightarrow>
            DB (fst (handleMessage E w chatID name)) = s)"
proof -
  from assms have ex: "\<exists>r \<in> set (debtors s). debtor_Name r = name \<and> debtor_ChatID r = chatID"
    unfolding getDebtorByName_def by (auto dest: queryRow_Inr)
  then have a: "\<forall>x. debtor_Name x = name \<and> debtor_ChatID x = chatID \<longrightarrow>
            addDebtor s x = Inl ErrAlreadyExists"
    by (auto simp: addDebtor_def)
  have b: "afterAddDebtor w chatID name (Inl ErrAlreadyExists)
           = (w, [Send chatID (Corrective (DebtorExists name))])"
    by (simp add: afterAddDebtor_def)
  have c: "DB w = s \<and> stateOf w chatID = StateAddingDebtorName \<longrightarrow>
            DB (fst (handleMessage E w chatID name)) = s"
    using assms
    by (auto simp: handleMessage_def onAddingDebtorName_def askReason_def setState_def
          setCurrentDebtor_def)
  show ?thesis
    using a b c by blast
qed

text \<open>Alex a second time, in chat 1.\<close>

theorem duplicate_debtor_rejected_witness:
  "getDebtorByName alexDB ''Alex'' 1 = Inr alex \<and>
   addDebtor alexDB (zeroDebtor\<lparr>debtor_Name := ''Alex'', debtor_ChatID := 1\<rparr>)
     = Inl ErrAlreadyExists"
proof -
  have g: "getDebtorByName alexDB ''Alex'' 1 = Inr alex"
    by (simp add: alexDB_def getDebtorByName_def queryRow_def alex_def)
  show ?thesis
    using duplicate_debtor_rejected [OF g] g by (simp add: zeroDebtor_def)
qed


section \<open>Buttons and the ids they carry\<close>

lemma settledDB_reached:
  "fst (run sampleEnv (initWorld alexDB)
     [Command 1 ''debts'', CallbackQuery 1 10 ''select_debtor:1'',
      CallbackQuery 1 11 ''close_debt:1'', CallbackQuery 1 11 ''confirm_close:1''])
     = initWorld settledDB"
  by (simp add: dispatch_simps cb_select_debtor [of _ _ _ _ "''1''", simplified]
        cb_close_debt [of _ _ _ _ "''1''", simplified]
        cb_confirm_close [of _ _ _ _ "''1''", simplified]
        command_defs callback_defs conv_defs store_defs sample_defs)

text \<open>
  C5, as the code has it, for a payload whose id \<open>str\<close> parses to \<open>i\<close>.
  \<^verbatim>\<open>select_debtor:\<close> reads debtor \<open>i\<close> from the store when the press is handled:
  when there is none, the user is told that the debtor was not found and the chat's
  state is cleared; when there is one, that row becomes the chat's current debtor.
  \<^verbatim>\<open>close_debt:\<close>, \<^verbatim>\<open>edit_debt:\<close> and \<^verbatim>\<open>subtract_from_debt:\<close> read debt \<open>i\<close>:
  when there is one, that row becomes the chat's selected debt; when there is none, the
  press only writes a log line, and the world (store, state, focus) stays as it was with
  nothing sent to the user. \<^verbatim>\<open>edit_amount:\<close> and \<^verbatim>\<open>edit_reason:\<close> do not read the
  store: they select a debt made of the id alone and move to the editing state.
  \<^verbatim>\<open>confirm_close:\<close> does not read the debt either: it deletes whatever has the id.
\<close>

theorem button_ids_resolved:
  assumes "Atoi E str = (i, None)"
  shows "(\<forall>e. getDebtorByID (DB w) i = Inl e \<longrightarrow>
            handleCallbackQuery E w chatID messageID (''select_debtor:'' @ str)
              = (clearUserState w chatID, [Send chatID (Notice DebtorNotFound)])) \<and>
         (\<forall>d. getDebtorByID (DB w) i = Inr d \<longrightarrow>
            currentDebtors (fst (handleCallbackQuery E w chatID messageID (''select_debtor:'' @ str)))
              chatID = Some d) \<and>
         (\<forall>e. getDebtByID (DB w) i = Inl e \<longrightarrow>
            handleCallbackQuery E w chatID messageID (''close_debt:'' @ str) = (w, [LogLine]) \<and>
            handleCallbackQuery E w chatID messageID (''edit_debt:'' @ str) = (w, [LogLine]) \<and>
            handleCallbackQuery E w chatID messageID (''subtract_from_debt:'' @ str)
              = (w, [LogLine])) \<and>
         (\<forall>d. getDebtByID (DB w) i = Inr d \<longrightarrow>
            selectedDebts (fst (handleCallbackQuery E w chatID messageID (''close_debt:'' @ str)))
              chatID = Some d \<and>
            selectedDebts (fst (handleCallbackQuery E w chatID messageID (''edit_debt:'' @ str)))
              chatID = Some d \<and>
            selectedDebts
              (fst (handleCallbackQuery E w chatID messageID (''subtract_from_debt:'' @ str)))
              chatID = Some d) \<and>
         handleCallbackQuery E w chatID messageID (''edit_amount:'' @ str)
           = (setState (setSelectedDebt w chatID (zeroDebt\<lparr>debt_ID := i\<rparr>)) chatID
                StateEditingAmount,
              [Edit chatID messageID (Prompt AskNewAmount)]) \<and>
         handleCallbackQuery E w chatID messageID (''edit_reason:'' @ str)
           = (setState (setSelectedDebt w chatID (zeroDebt\<lparr>debt_ID := i\<rparr>)) chatID
                StateEditingReason,
              [Edit chatID messageID (Prompt AskNewReason)]) \<and>
         DB (fst (handleCallbackQuery E w chatID messageID (''confirm_close:'' @ str)))
           = (DB w)\<lparr>debts := filter (\<lambda>r. debt_ID r \<noteq> i) (debts (DB w))\<rparr>"
proof -
  have a: "\<forall>e. getDebtorByID (DB w) i = Inl e \<longrightarrow>
            handleCallbackQuery E w chatID messageID (''select_debtor:'' @ str)
              = (clearUserState w chatID, [Send chatID (Notice DebtorNotFound)])"
    unfolding cb_select_debtor using assms
    by (auto simp: cbSelectDebtor_def getDebtorByID_def dest: queryRow_Inl)
  have b: "\<forall>d. getDebtorByID (DB w) i = Inr d \<longrightarrow>
            currentDebtors (fst (handleCallbackQuery E w chatID messageID (''select_debtor:'' @ str)))
              chatID = Some d"
    unfolding cb_select_debtor using assms
    by (simp add: cbSelectDebtor_def showDebtorDetails_def setCurrentDebtor_def
          clearUserState_def listDebts_def)
  have c: "\<forall>e. getDebtByID (DB w) i = Inl e \<longrightarrow>
            handleCallbackQuery E w chatID messageID (''close_debt:'' @ str) = (w, [LogLine]) \<and>
            handleCallbackQuery E w chatID messageID (''edit_debt:'' @ str) = (w, [LogLine]) \<and>
            handleCallbackQuery E w chatID messageID (''subtract_from_debt:'' @ str)
              = (w, [LogLine])"
    unfolding cb_close_debt cb_edit_debt cb_subtract_from_debt using assms
    by (simp add: cbCloseDebt_def cbEditDebt_def cbSubtractFromDebt_def)
  have d: "\<forall>d. getDebtByID (DB w) i = Inr d \<longrightarrow>
            selectedDebts (fst (handleCallbackQuery E w chatID messageID (''close_debt:'' @ str)))
              chatID = Some d \<and>
            selectedDebts (fst (handleCallbackQuery E w chatID messageID (''edit_debt:'' @ str)))
              chatID = Some d \<and>
            selectedDebts
              (fst (handleCallbackQuery E w chatID messageID (''subtract_from_debt:'' @ str)))
              chatID = Some d"
    unfolding cb_close_debt cb_edit_debt cb_subtract_from_debt using assms
    by (simp add: cbCloseDebt_def cbEditDebt_def cbSubtractFromDebt_def setState_def
          setSelectedDebt_def)
  have e: "handleCallbackQuery E w chatID messageID (''edit_amount:'' @ str)
           = (setState (setSelectedDebt w chatID (zeroDebt\<lparr>debt_ID := i\<rparr>)) chatID
                StateEditingAmount,
              [Edit chatID messageID (Prompt AskNewAmount)])"
    unfolding cb_edit_amount using assms by (simp add: cbEditAmount_def)
  have f: "handleCallbackQuery E w chatID messageID (''edit_reason:'' @ str)
           = (setState (setSelectedDebt w chatID (zeroDebt\<lparr>debt_ID := i\<rparr>)) chatID
                StateEditingReason,
              [Edit chatID messageID (Prompt AskNewReason)])"
    unfolding cb_edit_reason using assms by (simp add: cbEditReason_def)
  have g: "DB (fst (handleCallbackQuery E w chatID messageID (''confirm_close:'' @ str)))
           = (DB w)\<lparr>debts := filter (\<lambda>r. debt_ID r \<noteq> i) (debts (DB w))\<rparr>"
    unfolding cb_confirm_close using assms
    by (simp add: cbConfirmClose_def closeDebt_def Let_def case_prod_beta)
  show ?thesis
    using a b c d e f g by blast
qed

text \<open>Buttons that carry the id 1, pressed when debtor 1 is stored and debt 1 is not.\<close>

theorem button_ids_resolved_witness:
  "Atoi sampleEnv ''1'' = (1, None) \<and>
   getDebtorByID (DB (initWorld settledDB)) 1 = Inr alex \<and>
   getDebtByID (DB (initWorld settledDB)) 1 = Inl ErrNoRows \<and>
   currentDebtors (fst (handleCallbackQuery sampleEnv (initWorld settledDB) 1 10 ''select_debtor:1''))
     1 = Some alex \<and>
   handleCallbackQuery sampleEnv (initWorld settledDB) 1 11 ''close_debt:1''
     = (initWorld settledDB, [LogLine])"
proof -
  have a: "Atoi sampleEnv ''1'' = (1, None)"
    by (simp add: sampleEnv_def sampleAtoi_def digitVal_def)
  have r: "getDebtorByID (DB (initWorld settledDB)) 1 = Inr alex"
    by (simp add: initWorld_def settledDB_def getDebtorByID_def queryRow_def alex_def)
  have n: "getDebtByID (DB (initWorld settledDB)) 1 = Inl ErrNoRows"
    by (simp add: initWorld_def settledDB_def getDebtByID_def queryRow_def)
  show ?thesis
    using button_ids_resolved [OF a, of "initWorld settledDB" 1 10]
      button_ids_resolved [OF a, of "initWorld settledDB" 1 11] a r n
    by simp
qed

text \<open>
  The claim as the specification states it fails. Debt 1 has been closed. Pressing the
  button \<^verbatim>\<open>edit_debt:1\<close> of an older view sends the user nothing. Pressing
  \<^verbatim>\<open>edit_amount:1\<close> does not look the debt up: the chat goes from idle to
  \<open>StateEditingAmount\<close> and is asked for the new amount of a debt that is not there.
\<close>

theorem stale_debt_buttons:
  "getDebtByID (DB (initWorld settledDB)) 1 = Inl ErrNoRows \<and>
   stateOf (initWorld settledDB) 1 = StateIdle \<and>
   handleCallbackQuery sampleEnv (initWorld settledDB) 1 11 ''edit_debt:1''
     = (initWorld settledDB, [LogLine]) \<and>
   handleCallbackQuery sampleEnv (initWorld settledDB) 1 11 ''edit_amount:1''
     = (setState (setSelectedDebt (initWorld settledDB) 1 (zeroDebt\<lparr>debt_ID := 1\<rparr>)) 1
          StateEditingAmount,
        [Edit 1 11 (Prompt AskNewAmount)]) \<and>
   stateOf (fst (handleCallbackQuery sampleEnv (initWorld settledDB) 1 11 ''edit_amount:1'')) 1
     = StateEditingAmount"
  by (simp add: cb_edit_debt [of _ _ _ _ "''1''", simplified]
        cb_edit_amount [of _ _ _ _ "''1''", simplified]
        callback_defs conv_defs store_defs sample_defs)

section \<open>The current debtor after a debtor was selected\<close>

text \<open>
  C10. After a press of \<^verbatim>\<open>select_debtor:\<close> whose id names a stored debtor \<open>d\<close>, the
  chat has no entry in the state map, which reads as idle, and \<open>d\<close> is its current
  debtor. The buttons of the view work on that debtor: after the add-debt button the
  chat waits for a reason with \<open>d\<close> still current, and the reason then entered starts a
  debt of debtor \<open>i\<close>; after the delete button the chat waits for the confirmation with
  \<open>d\<close> still current, and the confirmation deletes debtor \<open>i\<close>; each of the four
  payment buttons moves to its state with \<open>d\<close> still current, and a valid amount
  entered after the set-amount button sets the payment amount of debtor \<open>i\<close>.
\<close>

theorem select_debtor_keeps_focus:
  assumes "Atoi E str = (i, None)" and "getDebtorByID (DB w) i = Inr d"
  shows "(let w1 = fst (handleCallbackQuery E w chatID messageID (''select_debtor:'' @ str)) in
           userStates w1 chatID = None \<and> stateOf w1 chatID = StateIdle \<and>
           currentDebtors w1 chatID = Some d \<and> DB w1 = DB w \<and>
           (let w2 = fst (handleCallbackQuery E w1 chatID m ''add_debt_to_existing'') in
              stateOf w2 chatID = StateAddingDebtReason \<and> currentDebtors w2 chatID = Some d \<and>
              selectedDebts (fst (handleMessage E w2 chatID reason)) chatID
                = Some (zeroDebt\<lparr>debt_DebtorID := i, debt_Reason := reason\<rparr>)) \<and>
           (let w3 = fst (handleCallbackQuery E w1 chatID m ''delete_debtor'') in
              stateOf w3 chatID = StateConfirmingDeleteDebtor \<and> currentDebtors w3 chatID = Some d \<and>
              deleteDebtor (DB w) i
                = Inr (DB (fst (handleCallbackQuery E w3 chatID m ''confirm_delete_debtor'')))) \<and>
           list_all (\<lambda>(p, st).
               stateOf (fst (handleCallbackQuery E w1 chatID m p)) chatID = st \<and>
               currentDebtors (fst (handleCallbackQuery E w1 chatID m p)) chatID = Some d)
             [(''set_payment_date'', StateSettingPaymentDate),
              (''set_payment_amount'', StateSettingPaymentAmount),
              (''edit_payment_date'', StateEditingPaymentDate),
              (''edit_payment_amount'', StateEditingPaymentAmount)] \<and>
           (\<forall>a. ParseFloat E amountText = Inr a \<and> flt (Fin 0) a \<longrightarrow>
              updateDebtorPaymentAmount (DB w) i a
                = Inr (DB (fst (handleMessage E
                        (fst (handleCallbackQuery E w1 chatID m ''set_payment_amount''))
                        chatID amountText)))))"
proof -
  define w1 where "w1 = fst (handleCallbackQuery E w chatID messageID (''select_debtor:'' @ str))"
  have di: "debtor_ID d = i"
    using assms(2) unfolding getDebtorByID_def by (auto dest: queryRow_Inr)
  have w1: "w1 = setCurrentDebtor (clearUserState w chatID) chatID d"
    unfolding w1_def cb_select_debtor using assms
    by (simp add: cbSelectDebtor_def showDebtorDetails_def setCurrentDebtor_def
          clearUserState_def listDebts_def)
  have base: "userStates w1 chatID = None \<and> stateOf w1 chatID = StateIdle \<and>
           currentDebtors w1 chatID = Some d \<and> DB w1 = DB w"
    by (simp add: w1 setCurrentDebtor_def clearUserState_def stateOf_def)
  have add: "let w2 = fst (handleCallbackQuery E w1 chatID m ''add_debt_to_existing'') in
              stateOf w2 chatID = StateAddingDebtReason \<and> currentDebtors w2 chatID = Some d \<and>
              selectedDebts (fst (handleMessage E w2 chatID reason)) chatID
                = Some (zeroDebt\<lparr>debt_DebtorID := i, debt_Reason := reason\<rparr>)"
    using base di
    by (simp add: cb_fixed cbAddDebtToExisting_def setState_def stateOf_def handleMessage_def
          onAddingDebtReason_def setSelectedDebt_def currentDebtor_def Let_def)
  have del: "let w3 = fst (handleCallbackQuery E w1 chatID m ''delete_debtor'') in
              stateOf w3 chatID = StateConfirmingDeleteDebtor \<and> currentDebtors w3 chatID = Some d \<and>
              deleteDebtor (DB w) i
                = Inr (DB (fst (handleCallbackQuery E w3 chatID m ''confirm_delete_debtor'')))"
  proof -
    obtain s' where "deleteDebtor (DB w) i = Inr s'"
      by (simp add: deleteDebtor_def)
    then show ?thesis
      using base di
      by (simp add: cb_fixed cbDeleteDebtor_def cbConfirmDeleteDebtor_def setState_def
            stateOf_def currentDebtor_def Let_def)
  qed
  have pay: "list_all (\<lambda>(p, st).
               stateOf (fst (handleCallbackQuery E w1 chatID m p)) chatID = st \<and>
               currentDebtors (fst (handleCallbackQuery E w1 chatID m p)) chatID = Some d)
             [(''set_payment_date'', StateSettingPaymentDate),
              (''set_payment_amount'', StateSettingPaymentAmount),
              (''edit_payment_date'', StateEditingPaymentDate),
              (''edit_payment_amount'', StateEditingPaymentAmount)]"
    using base by (simp add: cb_fixed cbAsk_def setState_def stateOf_def)
  have amt: "\<forall>a. ParseFloat E amountText = Inr a \<and> flt (Fin 0) a \<longrightarrow>
              updateDebtorPaymentAmount (DB w) i a
                = Inr (DB (fst (handleMessage E
                        (fst (handleCallbackQuery E w1 chatID m ''set_payment_amount''))
                        chatID amountText)))"
    using base di
    by (auto simp: cb_fixed cbAsk_def setState_def stateOf_def handleMessage_def
          onSettingPaymentAmount_def validAmount_def currentDebtor_def
          updateDebtorPaymentAmount_def Let_def case_prod_beta
        dest: flt_zero_not_fle)
  show ?thesis
    unfolding w1_def [symmetric] Let_def
    using base add del pay amt unfolding Let_def by blast
qed

text \<open>Selecting Alex in chat 1.\<close>

theorem select_debtor_keeps_focus_witness:
  "Atoi sampleEnv ''1'' = (1, None) \<and> getDebtorByID (DB (initWorld alexDB)) 1 = Inr alex \<and>
   stateOf (fst (handleCallbackQuery sampleEnv (initWorld alexDB) 1 10 ''select_debtor:1'')) 1
     = StateIdle \<and>
   currentDebtors (fst (handleCallbackQuery sampleEnv (initWorld alexDB) 1 10 ''select_debtor:1'')) 1
     = Some alex"
proof -
  have a: "Atoi sampleEnv ''1'' = (1, None)"
    by (simp add: sampleEnv_def sampleAtoi_def digitVal_def)
  have r: "getDebtorByID (DB (initWorld alexDB)) 1 = Inr alex"
    by (simp add: initWorld_def alexDB_def getDebtorByID_def queryRow_def alex_def)
  show ?thesis
    using select_debtor_keeps_focus [OF a r, of 1 10] a r
    by (simp add: Let_def)
qed


section \<open>With foreign keys enforced\<close>

text \<open>Had the connection enforced the foreign key of the schema, every store operation,
  and so every handler, would keep each debt with a debtor.\<close>

lemma ri_iff:
  "referentialIntegrity s =
     (\<forall>d \<in> set (debts s). \<exists>r \<in> set (debtors s). debtor_ID r = debt_DebtorID d)"
  by (simp add: referentialIntegrity_def list_all_iff list_ex_iff)

lemma enforced_addDebtor: "enforced s \<Longrightarrow> addDebtor s d = Inr (d', s') \<Longrightarrow> enforced s'"
  by (auto simp: enforced_def ri_iff addDebtor_def split: if_splits)

lemma enforced_addDebt: "enforced s \<Longrightarrow> addDebt s d = Inr s' \<Longrightarrow> enforced s'"
  by (auto simp: enforced_def ri_iff addDebt_def Let_def split: if_splits) blast

lemma enforced_updateDebtAmount: "enforced s \<Longrightarrow> updateDebtAmount s i a = Inr s' \<Longrightarrow> enforced s'"
  by (auto simp: enforced_def ri_iff updateDebtAmount_def split: if_splits)

lemma enforced_updateDebtReason: "enforced s \<Longrightarrow> updateDebtReason s i a = Inr s' \<Longrightarrow> enforced s'"
  by (auto simp: enforced_def ri_iff updateDebtReason_def split: if_splits)

lemma enforced_closeDebt: "enforced s \<Longrightarrow> closeDebt s i = Inr s' \<Longrightarrow> enforced s'"
  by (auto simp: enforced_def ri_iff closeDebt_def)

lemma enforced_deleteDebtor: "enforced s \<Longrightarrow> deleteDebtor s i = Inr s' \<Longrightarrow> enforced s'"
  by (fastforce simp: enforced_def ri_iff deleteDebtor_def split: if_splits)

lemma enforced_debtor_update:
  assumes "enforced s" and "\<And>r. debtor_ID (f r) = debtor_ID r"
  shows "enforced (s\<lparr>debtors := map (\<lambda>r. if debtor_ID r = i then f r else r) (debtors s)\<rparr>)"
proof -
  have "\<exists>r' \<in> set (map (\<lambda>r. if debtor_ID r = i then f r else r) (debtors s)).
          debtor_ID r' = debtor_ID r" if "r \<in> set (debtors s)" for r
  proof (cases "debtor_ID r = i")
    case True
    with that have "f r \<in> set (map (\<lambda>r. if debtor_ID r = i then f r else r) (debtors s))"
      by force
    then show ?thesis using assms(2) by blast
  next
    case False
    with that have "r \<in> set (map (\<lambda>r. if debtor_ID r = i then f r else r) (debtors s))"
      by force
    then show ?thesis by blast
  qed
  with assms(1) show ?thesis
    unfolding enforced_def ri_iff by (simp del: set_map) metis
qed

lemma enforced_payment:
  "enforced s \<Longrightarrow> updateDebtorPaymentDate s i t = Inr s' \<Longrightarrow> enforced s'"
  "enforced s \<Longrightarrow> updateDebtorPaymentAmount s i a = Inr s' \<Longrightarrow> enforced s'"
  "enforced s \<Longrightarrow> clearDebtorPaymentDate s i = Inr s' \<Longrightarrow> enforced s'"
  "enforced s \<Longrightarrow> clearDebtorPaymentAmount s i = Inr s' \<Longrightarrow> enforced s'"
  using enforced_debtor_update [of s "\<lambda>r. r\<lparr>debtor_PaymentDate := Some t\<rparr>" i]
    enforced_debtor_update [of s "\<lambda>r. r\<lparr>debtor_PaymentAmount := Some a\<rparr>" i]
    enforced_debtor_update [of s "\<lambda>r. r\<lparr>debtor_PaymentDate := None\<rparr>" i]
    enforced_debtor_update [of s "\<lambda>r. r\<lparr>debtor_PaymentAmount := None\<rparr>" i]
  by (auto simp: updateDebtorPaymentDate_def updateDebtorPaymentAmount_def
        clearDebtorPaymentDate_def clearDebtorPaymentAmount_def)

lemma DB_setters [simp]:
  "DB (setState w c st) = DB w"
  "DB (setCurrentDebtor w c d) = DB w"
  "DB (setSelectedDebt w c x) = DB w"
  by (simp_all add: setState_def setCurrentDebtor_def setSelectedDebt_def)

lemma DB_showThenClear [simp]: "DB (fst (showThenClear w c i r)) = DB w"
  by (simp add: fst_showThenClear)

lemma enforced_handleMessage:
  assumes "enforced (DB w)"
  shows "enforced (DB (fst (handleMessage E w c t)))"
proof -
  have 1: "enforced (DB (fst (onAddingDebtorName w c t)))"
    using assms
    by (auto simp: onAddingDebtorName_def afterAddDebtor_def askReason_def
          split: sum.splits dest: enforced_addDebtor)
  have 2: "enforced (DB (fst (onAddingDebtReason w c t)))"
    using assms by (simp add: onAddingDebtReason_def)
  have 3: "enforced (DB (fst (onAddingDebtAmount E w c t)))"
    using assms
    by (auto simp: onAddingDebtAmount_def Let_def split: sum.splits option.splits
          dest: enforced_addDebt)
  have 4: "enforced (DB (fst (onEditingAmount E w c t)))"
    using assms
    by (auto simp: onEditingAmount_def split: sum.splits option.splits
          dest: enforced_updateDebtAmount)
  have 5: "enforced (DB (fst (onEditingReason w c t)))"
    using assms
    by (auto simp: onEditingReason_def split: sum.splits dest: enforced_updateDebtReason)
  have 6: "enforced (DB (fst (onSubtractingFromDebt E w c t)))"
    using assms
    by (auto simp: onSubtractingFromDebt_def Let_def split: sum.splits option.splits
          dest: enforced_updateDebtAmount enforced_closeDebt)
  have 7: "enforced (DB (fst (onSettingPaymentDate E w c t)))"
    using assms
    by (auto simp: onSettingPaymentDate_def Let_def split: sum.splits dest: enforced_payment)
  have 8: "enforced (DB (fst (onEditingPaymentDate E w c t)))"
    using assms
    by (auto simp: onEditingPaymentDate_def Let_def split: sum.splits dest: enforced_payment)
  have 9: "enforced (DB (fst (onSettingPaymentAmount E w c t)))"
    using assms
    by (auto simp: onSettingPaymentAmount_def Let_def case_prod_beta
          split: sum.splits option.splits dest: enforced_payment)
  have 10: "enforced (DB (fst (onEditingPaymentAmount E w c t)))"
    using assms
    by (auto simp: onEditingPaymentAmount_def Let_def case_prod_beta
          split: sum.splits option.splits dest: enforced_payment)
  show ?thesis
    unfolding handleMessage_def
    using assms 1 2 3 4 5 6 7 8 9 10 by (simp split: State.splits)
qed

lemma enforced_handleCallbackQuery:
  assumes "enforced (DB w)"
  shows "enforced (DB (fst (handleCallbackQuery E w c m p)))"
proof -
  have 1: "enforced (DB (fst (cbSelectDebtor E w c x)))" for x
    using assms by (auto simp: cbSelectDebtor_def split: sum.splits option.splits prod.splits)
  have 2: "enforced (DB (fst (cbCloseDebt E w c m x)))" for x
    using assms by (auto simp: cbCloseDebt_def split: sum.splits option.splits prod.splits)
  have 3: "enforced (DB (fst (cbConfirmClose E w c m x)))" for x
    using assms
    by (auto simp: cbConfirmClose_def Let_def case_prod_beta split: sum.splits
          dest: enforced_closeDebt)
  have 4: "enforced (DB (fst (cbCancelOperation w c m)))"
    using assms by (auto simp: cbCancelOperation_def Let_def case_prod_beta split: option.splits)
  have 5: "enforced (DB (fst (cbEditDebt E w c m x)))" for x
    using assms by (auto simp: cbEditDebt_def split: sum.splits option.splits prod.splits)
  have 6: "enforced (DB (fst (cbEditAmount E w c m x)))" for x
    using assms by (simp add: cbEditAmount_def Let_def)
  have 7: "enforced (DB (fst (cbEditReason E w c m x)))" for x
    using assms by (simp add: cbEditReason_def Let_def)
  have 8: "enforced (DB (fst (cbSubtractFromDebt E w c m x)))" for x
    using assms by (auto simp: cbSubtractFromDebt_def split: sum.splits option.splits prod.splits)
  have 9: "enforced (DB (fst (cbAddDebtToExisting w c m)))"
    "enforced (DB (fst (cbDeleteDebtor w c m)))"
    "enforced (DB (fst (cbAsk w c m st q)))" for st q
    using assms by (simp_all add: cbAddDebtToExisting_def cbDeleteDebtor_def cbAsk_def)
  have 10: "enforced (DB (fst (cbConfirmDeleteDebtor w c m)))"
    using assms
    by (auto simp: cbConfirmDeleteDebtor_def Let_def split: sum.splits
          dest: enforced_deleteDebtor)
  have 11: "enforced (DB (fst (cbClearPaymentDate w c m)))"
    using assms
    by (auto simp: cbClearPaymentDate_def case_prod_beta split: sum.splits
          dest: enforced_payment)
  have 12: "enforced (DB (fst (cbClearPaymentAmount w c m)))"
    using assms
    by (auto simp: cbClearPaymentAmount_def case_prod_beta split: sum.splits
          dest: enforced_payment)
  show ?thesis
    unfolding handleCallbackQuery_def
    using assms 1 2 3 4 5 6 7 8 9 10 11 12 by simp
qed

lemma enforced_dispatch:
  "enforced (DB w) \<Longrightarrow> enforced (DB (fst (dispatch E w u)))"
  by (cases u)
     (simp_all add: dispatch_def enforced_handleMessage enforced_handleCallbackQuery
        handleStartCommand_def handleAddCommand_def handleDebtsCommand_def handleHelpCommand_def
        handleExportCSVCommand_def Let_def listDebtors_def generateCSV_def)

lemma enforced_run:
  "enforced (DB w) \<Longrightarrow> enforced (DB (fst (run E w us)))"
proof (induction us arbitrary: w)
  case Nil
  then show ?case by simp
next
  case (Cons u us)
  from Cons.prems have "enforced (DB (fst (dispatch E w u)))"
    by (rule enforced_dispatch)
  then have "enforced (DB (fst (run E (fst (dispatch E w u)) us)))"
    by (rule Cons.IH)
  then show ?case by (simp add: case_prod_beta)
qed

text \<open>
  X1. On a connection that enforces foreign keys, no run of updates leaves a debt
  without its debtor: when the store has every debt with a debtor before the run, it has
  after it, and foreign keys are still enforced.
\<close>

theorem integrity_kept_when_enforced:
  assumes "foreign_keys (DB w)" and "referentialIntegrity (DB w)"
  shows "foreign_keys (DB (fst (run E w us))) \<and> referentialIntegrity (DB (fst (run E w us)))"
  using assms enforced_run [of w E us] by (simp add: enforced_def)

text \<open>The run that deletes Alex, on \<open>enforcedAlexDB\<close>.\<close>

theorem integrity_kept_when_enforced_witness:
  "foreign_keys (DB (initWorld enforcedAlexDB)) \<and>
   referentialIntegrity (DB (initWorld enforcedAlexDB)) \<and>
   referentialIntegrity (DB (fst (run sampleEnv (initWorld enforcedAlexDB)
     [Command 1 ''debts'', CallbackQuery 1 10 ''select_debtor:1'',
      CallbackQuery 1 11 ''delete_debtor'', CallbackQuery 1 11 ''confirm_delete_debtor''])))"
proof -
  have f: "foreign_keys (DB (initWorld enforcedAlexDB))"
    by (simp add: initWorld_def enforcedAlexDB_def)
  have r: "referentialIntegrity (DB (initWorld enforcedAlexDB))"
    by (simp add: initWorld_def enforcedAlexDB_def alexDB_def referentialIntegrity_def
          alex_def lunch_def)
  have "referentialIntegrity (DB (fst (run sampleEnv (initWorld enforcedAlexDB)
     [Command 1 ''debts'', CallbackQuery 1 10 ''select_debtor:1'',
      CallbackQuery 1 11 ''delete_debtor'', CallbackQuery 1 11 ''confirm_delete_debtor''])))"
    using integrity_kept_when_enforced [OF f r] by (rule conjunct2)
  with f r show ?thesis by blast
qed

text \<open>
  X2. On a connection that enforces foreign keys, \<^verbatim>\<open>deleteDebtor\<close> of a stored
  debtor succeeds, and afterwards the debtor is not found and it has no debts.
\<close>

theorem deleteDebtor_cascades_when_enforced:
  assumes "foreign_keys s" and "getDebtorByID s i = Inr d"
  shows "\<exists>s'. deleteDebtor s i = Inr s' \<and> getDebtorByID s' i = Inl ErrNoRows \<and>
           listDebts s' i = Inr []"
  using assms by (rule deleteDebtor_enforced)

theorem deleteDebtor_cascades_when_enforced_witness:
  "foreign_keys enforcedAlexDB \<and> getDebtorByID enforcedAlexDB 1 = Inr alex \<and>
   (\<exists>s'. deleteDebtor enforcedAlexDB 1 = Inr s' \<and> getDebtorByID s' 1 = Inl ErrNoRows \<and>
      listDebts s' 1 = Inr [])"
proof -
  have f: "foreign_keys enforcedAlexDB"
    by (simp add: enforcedAlexDB_def)
  have g: "getDebtorByID enforcedAlexDB 1 = Inr alex"
    by (simp add: enforcedAlexDB_def alexDB_def getDebtorByID_def queryRow_def alex_def)
  show ?thesis
    using deleteDebtor_cascades_when_enforced [OF f g] f g by simp
qed

section \<open>One chat at a time\<close>

lemma othersSame_refl [simp]: "othersSame c w w"
  by (simp add: othersSame_def)

lemma othersSame_steps [simp]:
  "othersSame c w (clearUserState w' c) = othersSame c w w'"
  "othersSame c w (setState w' c st) = othersSame c w w'"
  "othersSame c w (setCurrentDebtor w' c d) = othersSame c w w'"
  "othersSame c w (setSelectedDebt w' c x) = othersSame c w w'"
  "othersSame c w (w'\<lparr>DB := s\<rparr>) = othersSame c w w'"
  by (auto simp: othersSame_def clearUserState_def setState_def setCurrentDebtor_def
        setSelectedDebt_def)

lemma othersSame_show [simp]:
  "othersSame c w (fst (showDebtorDetails w' c i)) = othersSame c w w'"
  by (simp add: showDebtorDetails_def Let_def split: sum.splits)

lemma othersSame_showThenClear [simp]:
  "othersSame c w (fst (showThenClear w' c i r)) = othersSame c w w'"
  by (simp add: fst_showThenClear)

lemma othersSame_handleMessage: "othersSame c w (fst (handleMessage E w c t))"
proof -
  have 1: "othersSame c w (fst (onAddingDebtorName w c t))"
    by (simp add: onAddingDebtorName_def afterAddDebtor_def askReason_def
          split: sum.splits prod.splits)
  have 2: "othersSame c w (fst (onAddingDebtReason w c t))"
    by (simp add: onAddingDebtReason_def)
  have 3: "othersSame c w (fst (onAddingDebtAmount E w c t))"
    by (simp add: onAddingDebtAmount_def Let_def split: sum.splits option.splits)
  have 4: "othersSame c w (fst (onEditingAmount E w c t))"
    by (simp add: onEditingAmount_def split: sum.splits option.splits)
  have 5: "othersSame c w (fst (onEditingReason w c t))"
    by (simp add: onEditingReason_def split: sum.splits)
  have 6: "othersSame c w (fst (onSubtractingFromDebt E w c t))"
    by (simp add: onSubtractingFromDebt_def Let_def split: sum.splits option.splits)
  have 7: "othersSame c w (fst (onSettingPaymentDate E w c t))"
    by (simp add: onSettingPaymentDate_def Let_def split: sum.splits)
  have 8: "othersSame c w (fst (onSettingPaymentAmount E w c t))"
    by (simp add: onSettingPaymentAmount_def Let_def case_prod_beta
          split: sum.splits option.splits)
  have 9: "othersSame c w (fst (onEditingPaymentDate E w c t))"
    by (simp add: onEditingPaymentDate_def Let_def split: sum.splits)
  have 10: "othersSame c w (fst (onEditingPaymentAmount E w c t))"
    by (simp add: onEditingPaymentAmount_def Let_def case_prod_beta
          split: sum.splits option.splits)
  show ?thesis
    unfolding handleMessage_def using 1 2 3 4 5 6 7 8 9 10 by (simp split: State.splits)
qed

lemma othersSame_handleCallbackQuery: "othersSame c w (fst (handleCallbackQuery E w c m p))"
proof -
  have 1: "othersSame c w (fst (cbSelectDebtor E w c x))" for x
    by (simp add: cbSelectDebtor_def split: sum.splits option.splits prod.splits)
  have 2: "othersSame c w (fst (cbCloseDebt E w c m x))" for x
    by (simp add: cbCloseDebt_def split: sum.splits option.splits prod.splits)
  have 3: "othersSame c w (fst (cbConfirmClose E w c m x))" for x
    by (simp add: cbConfirmClose_def Let_def case_prod_beta split: sum.splits)
  have 4: "othersSame c w (fst (cbCancelOperation w c m))"
    by (simp add: cbCancelOperation_def Let_def case_prod_beta split: option.splits)
  have 5: "othersSame c w (fst (cbEditDebt E w c m x))" for x
    by (simp add: cbEditDebt_def split: sum.splits option.splits prod.splits)
  have 6: "othersSame c w (fst (cbEditAmount E w c m x))" for x
    by (simp add: cbEditAmount_def Let_def)
  have 7: "othersSame c w (fst (cbEditReason E w c m x))" for x
    by (simp add: cbEditReason_def Let_def)
  have 8: "othersSame c w (fst (cbSubtractFromDebt E w c m x))" for x
    by (simp add: cbSubtractFromDebt_def split: sum.splits option.splits prod.splits)
  have 9: "othersSame c w (fst (cbAddDebtToExisting w c m))"
    "othersSame c w (fst (cbDeleteDebtor w c m))"
    "othersSame c w (fst (cbAsk w c m st q))" for st q
    by (simp_all add: cbAddDebtToExisting_def cbDeleteDebtor_def cbAsk_def)
  have 10: "othersSame c w (fst (cbConfirmDeleteDebtor w c m))"
    by (simp add: cbConfirmDeleteDebtor_def Let_def split: sum.splits)
  have 11: "othersSame c w (fst (cbClearPaymentDate w c m))"
    by (simp add: cbClearPaymentDate_def case_prod_beta split: sum.splits)
  have 12: "othersSame c w (fst (cbClearPaymentAmount w c m))"
    by (simp add: cbClearPaymentAmount_def case_prod_beta split: sum.splits)
  show ?thesis
    unfolding handleCallbackQuery_def
    using 1 2 3 4 5 6 7 8 9 10 11 12 by simp
qed

text \<open>
  X3. An update of one chat leaves the conversation state, the current debtor and the
  selected debt of every other chat as they were.
\<close>

theorem other_chats_untouched: "othersSame (chatOf u) w (fst (dispatch E w u))"
  by (cases u)
     (simp_all add: dispatch_def chatOf_def othersSame_handleMessage
        othersSame_handleCallbackQuery
        handleStartCommand_def handleAddCommand_def handleDebtsCommand_def handleHelpCommand_def
        handleExportCSVCommand_def Let_def listDebtors_def generateCSV_def)

text \<open>Chat 1 subtracts from its debt while chat 2 is being asked for a name.\<close>

theorem other_chats_untouched_witness:
  "chatOf (Message 1 ''30'') = 1 \<and> userStates twoChatWorld 2 = Some StateAddingDebtorName \<and>
   userStates (fst (dispatch sampleEnv twoChatWorld (Message 1 ''30''))) 2
     = Some StateAddingDebtorName"
proof -
  have c: "chatOf (Message 1 ''30'') = 1"
    by (simp add: chatOf_def)
  have s: "userStates twoChatWorld 2 = Some StateAddingDebtorName"
    by (simp add: twoChatWorld_def)
  have "othersSame 1 twoChatWorld (fst (dispatch sampleEnv twoChatWorld (Message 1 ''30'')))"
    using other_chats_untouched [of "Message 1 ''30''" twoChatWorld sampleEnv] c by simp
  then have "userStates (fst (dispatch sampleEnv twoChatWorld (Message 1 ''30''))) 2
               = userStates twoChatWorld 2"
    by (simp add: othersSame_def)
  with c s show ?thesis by simp
qed

section \<open>Creating a debtor and finding it\<close>

lemma fold_max_ge: "x \<in> set xs \<Longrightarrow> x \<le> fold max xs (a::int)"
  using Max.set_eq_fold [of a xs] Max_ge [of "set (a # xs)" x] by simp

lemma queryRow_append_new:
  "\<not> (\<exists>r \<in> set xs. p r) \<Longrightarrow> p y \<Longrightarrow> queryRow p (xs @ [y]) = Inr y"
  by (induction xs) (auto simp: queryRow_def)

text \<open>
  X4. When \<^verbatim>\<open>addDebtor\<close> succeeds, the debtor it returns has the name and the chat
  given and an id above the ids of all debtors stored before, and looking the name up
  in the chat, or the id, right afterwards finds one and the same row, with that id.
\<close>

theorem addDebtor_then_find:
  assumes "addDebtor s d = Inr (d', s')"
  shows "debtor_Name d' = debtor_Name d \<and> debtor_ChatID d' = debtor_ChatID d \<and>
         (\<exists>r. getDebtorByName s' (debtor_Name d) (debtor_ChatID d) = Inr r \<and>
              debtor_ID r = debtor_ID d' \<and> getDebtorByID s' (debtor_ID d') = Inr r) \<and>
         list_all (\<lambda>r. debtor_ID r < debtor_ID d') (debtors s)"
proof -
  define i where "i = next_rowid (debtors_seq s) (map debtor_ID (debtors s))"
  define row where "row = \<lparr>debtor_ID = i, debtor_Name = debtor_Name d,
      debtor_ChatID = debtor_ChatID d, debtor_PaymentDate = None, debtor_PaymentAmount = None\<rparr>"
  have fresh: "\<not> (\<exists>r \<in> set (debtors s).
      debtor_Name r = debtor_Name d \<and> debtor_ChatID r = debtor_ChatID d)"
    using assms by (auto simp: addDebtor_def split: if_splits)
  then have d': "d' = d\<lparr>debtor_ID := i\<rparr>"
    and s': "s' = s\<lparr>debtors := debtors s @ [row], debtors_seq := i\<rparr>"
    using assms by (auto simp: addDebtor_def i_def row_def split: if_splits)
  have lt: "debtor_ID r < i" if "r \<in> set (debtors s)" for r
    using fold_max_ge [of "debtor_ID r" "map debtor_ID (debtors s)" "debtors_seq s"] that
    by (simp add: i_def next_rowid_def)
  then have noid: "\<not> (\<exists>r \<in> set (debtors s). debtor_ID r = i)"
    by force
  have a: "getDebtorByName s' (debtor_Name d) (debtor_ChatID d) = Inr row"
    unfolding getDebtorByName_def s' using fresh
    by (simp add: queryRow_append_new row_def)
  have b: "getDebtorByID s' i = Inr row"
    unfolding getDebtorByID_def s' using noid
    by (simp add: queryRow_append_new row_def)
  show ?thesis
    using a b lt by (simp add: d' row_def list_all_iff)
qed

text \<open>A second debtor, Bob, in \<open>alexDB\<close>: the new row gets id 2.\<close>

theorem addDebtor_then_find_witness:
  "addDebtor alexDB (zeroDebtor\<lparr>debtor_Name := ''Bob'', debtor_ChatID := 1\<rparr>)
     = Inr (zeroDebtor\<lparr>debtor_ID := 2, debtor_Name := ''Bob'', debtor_ChatID := 1\<rparr>,
            alexDB\<lparr>debtors := [alex, zeroDebtor\<lparr>debtor_ID := 2, debtor_Name := ''Bob'',
                                                debtor_ChatID := 1\<rparr>],
                    debtors_seq := 2\<rparr>) \<and>
   list_all (\<lambda>r. debtor_ID r < 2) (debtors alexDB)"
proof -
  have a: "addDebtor alexDB (zeroDebtor\<lparr>debtor_Name := ''Bob'', debtor_ChatID := 1\<rparr>)
     = Inr (zeroDebtor\<lparr>debtor_ID := 2, debtor_Name := ''Bob'', debtor_ChatID := 1\<rparr>,
            alexDB\<lparr>debtors := [alex, zeroDebtor\<lparr>debtor_ID := 2, debtor_Name := ''Bob'',
                                                debtor_ChatID := 1\<rparr>],
                    debtors_seq := 2\<rparr>)"
    by (simp add: addDebtor_def alexDB_def alex_def zeroDebtor_def next_rowid_def)
  show ?thesis
    using addDebtor_then_find [OF a] a by simp
qed


end
